theory Spec2Isabelle
  imports Main
begin

section \<open>Prompt texts\<close>

text \<open>
  The three instruction texts of \<^verbatim>\<open>agent.py\<close>: \<^verbatim>\<open>supervisor_prompt\<close> (lines 69-83), and the
  f-strings \<^verbatim>\<open>replan_with_user_input_prompt\<close> (lines 169-204) and \<^verbatim>\<open>replanner_prompt\<close>
  (lines 260-291), whose placeholders are the parameters. One string per source line.
\<close>

definition supervisor_prompt :: "string" where
  "supervisor_prompt =
     ''You are an expert customer support assistant for a digital music store. You are dedicated to providing exceptional service and ensuring customer queries are answered thoroughly. You have a team of subagents that you can use to help answer queries from customers. Your primary role is to serve as a supervisor/planner for this multi-agent team that helps answer queries from customers. \<newline>'' @
     ''The multi-agent team you are supervising is responsible for handling questions related to the digital music store's music catalog (albums, tracks, songs, etc.), information about a customer's account (name, email, phone number, address, etc.), and information about a customer's past purchases or invoices. Your team is composed of three subagents that you can use to help answer the customer's request:\<newline>'' @
     ''\<newline>'' @
     ''1. customer_information_subagent: this subagent is able to retrieve and update the personal information associated with a customer's account in the database (specifically, viewing or updating a customer's name, address, phone number, or email).\<newline>'' @
     ''2. music_catalog_information_subagent: this subagent is able to retrieve information about the digital music store's music catalog (albums, tracks, songs, etc.) from the database.\<newline>'' @
     ''3. invoice_information_subagent: this subagent is able to retrieve information about a customer's past purchases or invoices from the database.\<newline>'' @
     ''\<newline>'' @
     ''Your role is to create an action plan that the subagents can follow and execute to thoroughly answer the customer's request. Your action plan should specify the exact steps that should be followed by the subagent(s) in order to successfully answer the customer's request, and which subagent should perform each step. Return the action plan as a list of objects, where each object contains the following fields:\<newline>'' @
     ''- step: a detailed step that should be followed by the subagent(s) in order to successfully answer a portion of the customer's request.\<newline>'' @
     ''- subagent_to_perform_step: the subagent that should perform the step.\<newline>'' @
     ''\<newline>'' @
     ''Return the action plan in chronological order, starting with the first step to be performed, and ending with the last step to be performed. You should try your best not to have multiple steps performed by the same subagent. This is inefficient. If you need a subagent to perform a task, try and group it all into one step.\<newline>'' @
     ''\<newline>'' @
     ''If you do not need a subagent to answer the customer's request, do not include it in the action plan/list of steps. Your goal is to be as efficient as possible, while ensuring that the customer's request is answered thoroughly. Take a deep breath and think carefully before responding. Go forth and make the customer delighted!\<newline>''"

definition replan_with_user_input_prompt :: "string \<Rightarrow> string \<Rightarrow> string \<Rightarrow> string" where
  "replan_with_user_input_prompt original_objective formatted_action_plan user_input =
     ''You are an expert customer support assistant for a digital music store. You are dedicated to providing exceptional service and ensuring customer queries are answered thoroughly. You have a team of subagents that you can use to help answer queries from customers. Your primary role is to serve as a supervisor/planner for this multi-agent team that helps answer these queries from customers. \<newline>'' @
     ''The multi-agent team you are supervising is responsible for handling questions related to the digital music store's music catalog (albums, tracks, songs, etc.), information about a customer's account (name, email, phone number, address, etc.), and information about a customer's past purchases or invoices. Your team is composed of three subagents that you can use to help answer the customer's request:\<newline>'' @
     ''\<newline>'' @
     ''1. customer_information_subagent: this subagent is able to retrieve and update the personal information associated with a customer's account in the database (specifically, viewing or updating a customer's name, address, phone number, or email).\<newline>'' @
     ''2. music_catalog_information_subagent: this subagent is able to retrieve information about the digital music store's music catalog (albums, tracks, songs, etc.) from the database.\<newline>'' @
     ''3. invoice_information_subagent: this subagent is able to retrieve information about a customer's past purchases or invoices from the database.\<newline>'' @
     ''\<newline>'' @
     ''Before you, another supervisor/planner has already created an action plan for the subagents to follow. This action plan was then shown to the customer so they could provide feedback and ideas for improvement. \<newline>'' @
     ''\<newline>'' @
     ''Your job is to take the customer's feedback and update the action plan and their original request/objective accordingly. Below, I have attached the previous action plan, the customer's original request/objective that the action plan was created for, and the feedback/ideas for improvement from the customer.\<newline>'' @
     ''\<newline>'' @
     ''Please take this feedback and construct a new action plan/original objective that the subagents can follow to thoroughly answer the customer's request. If the feedback is not relevant or nonsensical, you can ignore it, and keep the original action plan/original objective.\<newline>'' @
     ''\<newline>'' @
     ''The updated action plan should specify the exact steps that should be followed by the subagent(s) in order to successfully answer the customer's request, and which subagent should perform each step. Return the action plan as a list of objects, where each object contains the following fields:\<newline>'' @
     ''- step: a detailed step that should be followed by the subagent(s) in order to successfully answer a portion of the customer's request.\<newline>'' @
     ''- subagent_to_perform_step: the subagent that should perform the step.\<newline>'' @
     ''\<newline>'' @
     ''The updated objective should be a detailed description of the customer's request/objective, after taking into account the customer's feedback/ideas for improvement.\<newline>'' @
     ''\<newline>'' @
     ''Return the action plan in chronological order, starting with the first step to be performed, and ending with the last step to be performed. You should try your best not to have multiple steps performed by the same subagent. This is inefficient. If you need a subagent to perform a task, try and group it all into one step.\<newline>'' @
     ''\<newline>'' @
     ''If you do not need a subagent to answer the customer's request, do not include it in the action plan/list of steps. Your goal is to be as efficient as possible, while ensuring that the customer's request is answered thoroughly and to the best of your ability.\<newline>'' @
     ''\<newline>'' @
     ''Use the information below to update the action plan and customer's objective based on their feedback/ideas for improvement.\<newline>'' @
     ''\<newline>'' @
     ''*IMPORTANT INFORMATION BELOW*\<newline>'' @
     ''\<newline>'' @
     ''Your original objective/request from the customer was this:\<newline>'' @
     original_objective @ ''\<newline>'' @
     ''\<newline>'' @
     ''The original action plan constructed by the previous supervisor/planner was this:\<newline>'' @
     formatted_action_plan @ ''\<newline>'' @
     ''\<newline>'' @
     ''The customer's feedback/ideas for improvement are as follows:\<newline>'' @
     user_input @ ''\<newline>''"

definition replanner_prompt :: "string \<Rightarrow> string \<Rightarrow> string \<Rightarrow> string" where
  "replanner_prompt original_objective formatted_action_plan formatted_steps =
     ''You are an expert customer support assistant for a digital music store. You are dedicated to providing exceptional service and ensuring customer queries are answered thoroughly. You have a team of subagents that you can use to help answer queries from customers. Your primary role is to serve as a supervisor/planner for this multi-agent team that helps answer these queries from customers. \<newline>'' @
     ''The multi-agent team you are supervising is responsible for handling questions related to the digital music store's music catalog (albums, tracks, songs, etc.), information about a customer's account (name, email, phone number, address, etc.), and information about a customer's past purchases or invoices. Your team is composed of three subagents that you can use to help answer the customer's request:\<newline>'' @
     ''\<newline>'' @
     ''1. customer_information_subagent: this subagent is able to retrieve and update the personal information associated with a customer's account in the database (specifically, viewing or updating a customer's name, address, phone number, or email).\<newline>'' @
     ''2. music_catalog_information_subagent: this subagent is able to retrieve information about the digital music store's music catalog (albums, tracks, songs, etc.) from the database.\<newline>'' @
     ''3. invoice_information_subagent: this subagent is able to retrieve information about a customer's past purchases or invoices from the database.\<newline>'' @
     ''\<newline>'' @
     ''Before you, another supervisor/planner has already created an action plan for the subagents to follow. I've attached the previous action plan, the customer's original request, and the steps that have already been executed by the subagents below. You should take this information and either update the plan, or return Response if you believe the customer's request has been answered thoroughly and you no longer need to use the subagents to solve the problem.\<newline>'' @
     ''\<newline>'' @
     ''If you decide to update the action plan, your action plan should specify the exact steps that should be followed by the subagent(s) in order to successfully answer the customer's request, and which subagent should perform each step. Return the action plan as a list of objects, where each object contains the following fields:\<newline>'' @
     ''- step: a detailed step that should be followed by the subagent(s) in order to successfully answer a portion of the customer's request.\<newline>'' @
     ''- subagent_to_perform_step: the subagent that should perform the step.\<newline>'' @
     ''\<newline>'' @
     ''Return the action plan in chronological order, starting with the first step to be performed, and ending with the last step to be performed. You should try your best not to have multiple steps performed by the same subagent. This is inefficient. If you need a subagent to perform a task, try and group it all into one step.\<newline>'' @
     ''\<newline>'' @
     ''If you do not need a subagent to answer the customer's request, do not include it in the action plan/list of steps. Your goal is to be as efficient as possible, while ensuring that the customer's request is answered thoroughly and to the best of your ability.\<newline>'' @
     ''\<newline>'' @
     ''Use the information below to either update the action plan, or return Response if you believe the customer's request has been answered thoroughly and you no longer need to use the subagents to solve the problem.\<newline>'' @
     ''\<newline>'' @
     ''*IMPORTANT INFORMATION BELOW*\<newline>'' @
     ''\<newline>'' @
     ''Your original objective/request from the customer was this:\<newline>'' @
     original_objective @ ''\<newline>'' @
     ''\<newline>'' @
     ''The original action plan constructed by the previous supervisor/planner was this:\<newline>'' @
     formatted_action_plan @ ''\<newline>'' @
     ''\<newline>'' @
     ''The subagents have already executed the following steps:\<newline>'' @
     formatted_steps @ ''\<newline>'' @
     ''\<newline>'' @
     ''If no more steps are needed and you are ready to respond to the customer, use Response. If you still need to use the subagents to solve the problem, construct and return a list of steps to be performed by the subagents using Plan.\<newline>''"

section \<open>Data model\<close>

text \<open>
  \<^verbatim>\<open>Step\<close>, \<^verbatim>\<open>Plan\<close>, \<^verbatim>\<open>PlanWithUserInput\<close>, \<^verbatim>\<open>Response\<close> and \<^verbatim>\<open>ReplannerResponse\<close> are the
  pydantic classes of lines 40-67. At run time \<^verbatim>\<open>subagent\<close> is a string that the executor
  compares with three string constants, so it is a string here; the \<^verbatim>\<open>Literal\<close> annotation is
  \<open>known_subagent\<close>. \<^verbatim>\<open>PlanWithUserInput\<close> has the field of \<^verbatim>\<open>Plan\<close> and one more.
\<close>

record Step =
  description :: string
  subagent :: string

definition known_subagent :: "string \<Rightarrow> bool" where
  "known_subagent a \<longleftrightarrow>
     a = ''customer_information_subagent'' \<or>
     a = ''music_catalog_information_subagent'' \<or>
     a = ''invoice_information_subagent''"

record Plan =
  steps :: "Step list"

record PlanWithUserInput = Plan +
  updated_objective :: string

datatype Response_or_Plan = Response string | Plan_action Plan

record ReplannerResponse =
  action :: Response_or_Plan

text \<open>A message of the conversation: its \<^verbatim>\<open>type\<close> attribute and its \<^verbatim>\<open>content\<close>.\<close>

record Message =
  msg_type :: string
  content :: string

definition SystemMessage :: "string \<Rightarrow> Message" where
  "SystemMessage c = \<lparr>msg_type = ''system'', content = c\<rparr>"

definition HumanMessage :: "string \<Rightarrow> Message" where
  "HumanMessage c = \<lparr>msg_type = ''human'', content = c\<rparr>"

text \<open>
  \<^verbatim>\<open>State\<close> (lines 33-38) is a \<^verbatim>\<open>TypedDict\<close>: a key without a reducer is absent until some
  node or the input writes it (\<open>None\<close>); the two keys with a reducer (\<^verbatim>\<open>messages\<close>,
  \<^verbatim>\<open>past_steps\<close>) start as the empty list. \<^verbatim>\<open>action_plan\<close> is annotated \<^verbatim>\<open>List[str]\<close> in the
  source but every writer stores \<^verbatim>\<open>Step\<close> objects and every reader uses them as such.
\<close>

record State =
  original_objective :: "string option"
  action_plan :: "Step list option"
  messages :: "Message list"
  past_steps :: "(string \<times> string) list"
  response :: "string option"

text \<open>
  The dictionary a node returns: the keys it holds. No node of the source returns the key
  \<^verbatim>\<open>messages\<close>.
\<close>

record Update =
  upd_action_plan :: "Step list option"
  upd_original_objective :: "string option"
  upd_past_steps :: "(string \<times> string) list option"
  upd_response :: "string option"

definition empty_update :: Update where
  "empty_update = \<lparr>upd_action_plan = None, upd_original_objective = None,
                    upd_past_steps = None, upd_response = None\<rparr>"

text \<open>
  Merging a node's return value into the state, as the annotations of \<^verbatim>\<open>State\<close> say: a plain
  key is overwritten, \<^verbatim>\<open>past_steps\<close> is combined with \<^verbatim>\<open>operator.add\<close> (old list first), and a node
  that returns nothing writes nothing.
\<close>

definition apply_update :: "State \<Rightarrow> Update option \<Rightarrow> State" where
  "apply_update st r =
     (case r of
        None \<Rightarrow> st
      | Some u \<Rightarrow>
          st\<lparr>action_plan := (case upd_action_plan u of None \<Rightarrow> action_plan st | Some p \<Rightarrow> Some p),
             original_objective :=
               (case upd_original_objective u of None \<Rightarrow> original_objective st | Some v \<Rightarrow> Some v),
             past_steps := (case upd_past_steps u of None \<Rightarrow> past_steps st | Some l \<Rightarrow> past_steps st @ l),
             response := (case upd_response u of None \<Rightarrow> response st | Some v \<Rightarrow> Some v)\<rparr>)"

subsection \<open>Errors and the outside world\<close>

text \<open>
  The exceptions the nodes can raise. \<open>KeyError\<close>, \<open>IndexError\<close> and \<open>UnboundLocalError\<close> are
  Python's own; \<open>ExternalError\<close> is whatever a call of the language model or of a remote graph
  raises (the call is opaque). \<open>UnknownCapabilityError\<close> is the error the specification names
  for a capability tag without registry entry; no statement of the source raises it.
\<close>

datatype error =
    KeyError string
  | IndexError
  | UnboundLocalError string
  | ExternalError string
  | UnknownCapabilityError

datatype remote_graph =
    customer_information_remote_graph
  | music_catalog_information_remote_graph
  | invoice_information_remote_graph

text \<open>
  The collaborators the module holds as globals (lines 24-28): \<^verbatim>\<open>model\<close> with each of its three
  structured-output schemas, and the \<^verbatim>\<open>invoke\<close> of the three remote graphs, which takes the
  messages sent and returns a dictionary whose key \<^verbatim>\<open>messages\<close> holds a list of dictionaries.
\<close>

record Env =
  invoke_Plan :: "Message list \<Rightarrow> error + Plan"
  invoke_PlanWithUserInput :: "Message list \<Rightarrow> error + PlanWithUserInput"
  invoke_ReplannerResponse :: "Message list \<Rightarrow> error + ReplannerResponse"
  invoke_remote :: "remote_graph \<Rightarrow> Message list \<Rightarrow> error + (string \<rightharpoonup> (string \<rightharpoonup> string) list)"

section \<open>Helpers\<close>

text \<open>Python's \<^verbatim>\<open>str\<close> of a natural number and \<^verbatim>\<open>sep.join\<close>.\<close>

definition digit_char :: "nat \<Rightarrow> char" where
  "digit_char d = ''0123456789'' ! d"

fun str_nat :: "nat \<Rightarrow> string" where
  "str_nat n = (if n < 10 then [digit_char n] else str_nat (n div 10) @ [digit_char (n mod 10)])"

fun join :: "string \<Rightarrow> string list \<Rightarrow> string" where
  "join sep [] = []"
| "join sep [x] = x"
| "join sep (x # y # ys) = x @ sep @ join sep (y # ys)"

text \<open>\<^verbatim>\<open>enumerate(xs, start)\<close>.\<close>

definition enumerate_from :: "nat \<Rightarrow> 'a list \<Rightarrow> (nat \<times> 'a) list" where
  "enumerate_from start xs = zip [start ..< start + length xs] xs"

text \<open>
  \<^verbatim>\<open>format_steps\<close> (lines 86-109) and \<^verbatim>\<open>format_action_plan\<close> (lines 111-136): the loop body is
  the function of one enumerated item, the loop a fold over the enumeration from 1.
\<close>

definition format_steps_item :: "nat \<Rightarrow> string \<Rightarrow> nat \<times> (string \<times> string) \<Rightarrow> string" where
  "format_steps_item len formatted_output item =
     (let i = fst item; step = snd item;
          context_on_step = fst step;
          result_of_step = snd step;
          out1 = formatted_output @ ''## Step '' @ str_nat i @ ''\<newline>\<newline>'';
          out2 = out1 @ ''### Task Description\<newline>'' @ context_on_step @ ''\<newline>\<newline>'';
          out3 = out2 @ ''### Result\<newline>The following is the response returned after the subagent performed the task above:\<newline>\<newline>'';
          out4 = out3 @ result_of_step @ ''\<newline>\<newline>''
      in if i < len then out4 @ ''---\<newline>\<newline>'' else out4)"

definition format_steps :: "(string \<times> string) list \<Rightarrow> string" where
  "format_steps steps_list =
     foldl (format_steps_item (length steps_list))
       ''# STEPS ALREADY PERFORMED BY THE SUBAGENTS\<newline>\<newline>''
       (enumerate_from 1 steps_list)"

definition format_action_plan_item :: "nat \<Rightarrow> string \<Rightarrow> nat \<times> Step \<Rightarrow> string" where
  "format_action_plan_item len summary item =
     (let i = fst item; step = snd item;
          task_description = description step;
          agent = subagent step;
          s1 = summary @ ''## Action '' @ str_nat i @ ''\<newline>\<newline>'';
          s2 = s1 @ ''### Agent\<newline>'' @ agent @ ''\<newline>\<newline>'';
          s3 = s2 @ ''### Task\<newline>'' @ task_description @ ''\<newline>\<newline>''
      in if i < len then s3 @ ''---\<newline>\<newline>'' else s3)"

definition format_action_plan :: "Step list \<Rightarrow> string" where
  "format_action_plan steps_list =
     foldl (format_action_plan_item (length steps_list))
       ''# ACTION PLAN FROM PREVIOUS SUPERVISOR/PLANNER\<newline>\<newline>''
       (enumerate_from 1 steps_list)"

section \<open>The nodes\<close>

text \<open>
  Every node is modelled statement by statement. The \<^verbatim>\<open>print\<close> calls write to the console
  only and are left out, except that line 219 reads \<^verbatim>\<open>state["original_objective"]\<close> for its
  argument and so raises \<open>KeyError\<close> when the key is absent.
\<close>

text \<open>
  What a node does to the outside world, in order: a call of the model, a call of a remote
  graph, or the interrupt that shows the plan to the human. A node's result is this log and
  either the exception raised or the value returned.
\<close>

datatype schema = Plan_schema | PlanWithUserInput_schema | ReplannerResponse_schema

datatype call =
    Model_invoke schema "Message list"
  | Remote_invoke remote_graph "Message list"
  | Interrupt "Step list"

type_synonym 'a result = "call list \<times> (error + 'a)"

subsection \<open>\<^verbatim>\<open>supervisor\<close> (lines 138-154)\<close>

text \<open>The slice \<^verbatim>\<open>xs[-n:]\<close>: the last \<open>n\<close> elements, all of them when there are fewer.\<close>

definition slice_last :: "nat \<Rightarrow> 'a list \<Rightarrow> 'a list" where
  "slice_last n xs = drop (length xs - n) xs"

definition filtered_messages :: "Message list \<Rightarrow> Message list" where
  "filtered_messages msgs =
     filter (\<lambda>msg. \<not> (msg_type msg \<in> set [''tool'', ''tool_call''])) (slice_last 3 msgs)"

definition supervisor :: "Env \<Rightarrow> State \<Rightarrow> Update result" where
  "supervisor env state =
     (if messages state = [] then ([], Inl IndexError)
      else
        (let first_message = last (messages state);
             sent = [SystemMessage supervisor_prompt] @ filtered_messages (messages state)
         in case invoke_Plan env sent of
              Inl e \<Rightarrow> ([Model_invoke Plan_schema sent], Inl e)
            | Inr result \<Rightarrow>
                ([Model_invoke Plan_schema sent],
                 Inr (empty_update\<lparr>upd_action_plan := Some (steps result),
                                   upd_original_objective := Some (content first_message)\<rparr>))))"

subsection \<open>\<^verbatim>\<open>human_input\<close> (lines 156-212)\<close>

text \<open>
  \<open>user_input\<close> is the value \<^verbatim>\<open>interrupt\<close> returns when the session is resumed: the node is run
  again from its first line with the resume payload. The bare \<^verbatim>\<open>return\<close> of the else branch
  is \<open>None\<close>.
\<close>

definition human_input :: "Env \<Rightarrow> State \<Rightarrow> string \<Rightarrow> Update option result" where
  "human_input env state user_input =
     (case action_plan state of
        None \<Rightarrow> ([], Inl (KeyError ''action_plan''))
      | Some plan \<Rightarrow>
          (case original_objective state of
             None \<Rightarrow> ([Interrupt plan], Inl (KeyError ''original_objective''))
           | Some objective \<Rightarrow>
               (let formatted_action_plan = format_action_plan plan in
                if user_input \<noteq> '''' then
                  (let sent = [SystemMessage
                         (replan_with_user_input_prompt objective formatted_action_plan user_input)]
                   in case invoke_PlanWithUserInput env sent of
                        Inl e \<Rightarrow> ([Interrupt plan, Model_invoke PlanWithUserInput_schema sent], Inl e)
                      | Inr result \<Rightarrow>
                          ([Interrupt plan, Model_invoke PlanWithUserInput_schema sent],
                           Inr (Some (empty_update\<lparr>upd_action_plan := Some (steps result),
                                       upd_original_objective := Some (updated_objective result)\<rparr>))))
                else ([Interrupt plan], Inr None))))"

subsection \<open>\<^verbatim>\<open>agent_executor\<close> (lines 214-246)\<close>

definition total_plan :: "Step list \<Rightarrow> string" where
  "total_plan plan =
     join ''\<newline>''
       (map (\<lambda>(i, step). str_nat (i + 1) @ ''. '' @ subagent step @ '' will: '' @ description step)
            (enumerate_from 0 plan))"

definition task_formatted_prompt :: "Step list \<Rightarrow> string \<Rightarrow> string \<Rightarrow> string" where
  "task_formatted_prompt plan first_task_subagent first_task_description =
     ''For the following plan: \<newline>'' @
     ''    '' @ total_plan plan @ ''\<newline>'' @
     ''    You are tasked with executing the first step #1. '' @ first_task_subagent @
     '' will: '' @ first_task_description @ ''\<newline>'' @
     ''    ''"

text \<open>
  The two lines every branch of the dispatch shares: invoke the remote graph with the prompt
  as the only message, take \<^verbatim>\<open>["messages"]\<close> of the answer, then \<^verbatim>\<open>[-1]['content']\<close>.
\<close>

definition read_final_response :: "(string \<rightharpoonup> (string \<rightharpoonup> string) list) \<Rightarrow> error + string" where
  "read_final_response answer =
     (case answer ''messages'' of
        None \<Rightarrow> Inl (KeyError ''messages'')
      | Some remote_messages \<Rightarrow>
          (if remote_messages = [] then Inl IndexError
           else (case (last remote_messages) ''content'' of
                   None \<Rightarrow> Inl (KeyError ''content'')
                 | Some c \<Rightarrow> Inr c)))"

definition invoke_remote_graph :: "Env \<Rightarrow> remote_graph \<Rightarrow> string \<Rightarrow> string result" where
  "invoke_remote_graph env g prompt =
     (let sent = [HumanMessage prompt]
      in ([Remote_invoke g sent],
          (case invoke_remote env g sent of
             Inl e \<Rightarrow> Inl e
           | Inr answer \<Rightarrow> read_final_response answer)))"

text \<open>
  The \<^verbatim>\<open>if\<close>/\<^verbatim>\<open>elif\<close>/\<^verbatim>\<open>elif\<close> chain of lines 232-240 has no \<^verbatim>\<open>else\<close>: when no branch is
  taken, \<^verbatim>\<open>final_response\<close> was never assigned and reading it at line 244 raises
  \<open>UnboundLocalError\<close>.
\<close>

definition agent_executor :: "Env \<Rightarrow> State \<Rightarrow> Update result" where
  "agent_executor env state =
     (case action_plan state of
        None \<Rightarrow> ([], Inl (KeyError ''action_plan''))
      | Some plan \<Rightarrow>
          (case original_objective state of
             None \<Rightarrow> ([], Inl (KeyError ''original_objective''))
           | Some objective \<Rightarrow>
               (if plan = [] then ([], Inl IndexError)
                else
                  (let first_task_subagent = subagent (plan ! 0);
                       first_task_description = description (plan ! 0);
                       first_task_subagent_response =
                         first_task_subagent @
                         '' executed logic to answer the following request from the planner/supervisor: '' @
                         first_task_description;
                       prompt = task_formatted_prompt plan first_task_subagent first_task_description;
                       dispatched =
                         (if first_task_subagent = ''customer_information_subagent'' then
                            Some (invoke_remote_graph env customer_information_remote_graph prompt)
                          else if first_task_subagent = ''music_catalog_information_subagent'' then
                            Some (invoke_remote_graph env music_catalog_information_remote_graph prompt)
                          else if first_task_subagent = ''invoice_information_subagent'' then
                            Some (invoke_remote_graph env invoice_information_remote_graph prompt)
                          else None)
                   in case dispatched of
                        None \<Rightarrow> ([], Inl (UnboundLocalError ''final_response''))
                      | Some (calls, Inl e) \<Rightarrow> (calls, Inl e)
                      | Some (calls, Inr final_response) \<Rightarrow>
                          (calls,
                           Inr (empty_update\<lparr>upd_past_steps :=
                                  Some [(first_task_subagent_response, final_response)]\<rparr>))))))"

subsection \<open>\<^verbatim>\<open>replanner\<close> (lines 248-297)\<close>

definition replanner :: "Env \<Rightarrow> State \<Rightarrow> Update result" where
  "replanner env state =
     (case original_objective state of
        None \<Rightarrow> ([], Inl (KeyError ''original_objective''))
      | Some objective \<Rightarrow>
          (case action_plan state of
             None \<Rightarrow> ([], Inl (KeyError ''action_plan''))
           | Some previous_action_plan \<Rightarrow>
               (let previous_steps = past_steps state;
                    formatted_action_plan = format_action_plan previous_action_plan;
                    formatted_steps = format_steps previous_steps;
                    sent = [SystemMessage
                              (replanner_prompt objective formatted_action_plan formatted_steps)]
                in case invoke_ReplannerResponse env sent of
                     Inl e \<Rightarrow> ([Model_invoke ReplannerResponse_schema sent], Inl e)
                   | Inr result \<Rightarrow>
                       ([Model_invoke ReplannerResponse_schema sent],
                        Inr (case action result of
                               Response text \<Rightarrow> empty_update\<lparr>upd_response := Some text\<rparr>
                             | Plan_action p \<Rightarrow> empty_update\<lparr>upd_action_plan := Some (steps p)\<rparr>)))))"

section \<open>The graph\<close>

datatype node = START | supervisor_node | human_input_node | agent_executor_node | replanner_node | END

text \<open>
  \<^verbatim>\<open>should_end\<close> (lines 299-306): \<^verbatim>\<open>"response" in state and state["response"]\<close> holds when the key
  is present and its string is not empty.
\<close>

definition should_end :: "State \<Rightarrow> node" where
  "should_end state =
     (if (case response state of None \<Rightarrow> False | Some r \<Rightarrow> r \<noteq> '''') then END
      else agent_executor_node)"

text \<open>
  The builder (lines 308-321): four fixed edges, and the conditional edge out of the replanner
  whose target \<^verbatim>\<open>should_end\<close> picks among the two listed nodes.
\<close>

definition edges :: "(node \<times> node) list" where
  "edges = [(START, supervisor_node), (supervisor_node, human_input_node),
            (human_input_node, agent_executor_node), (agent_executor_node, replanner_node)]"

definition conditional_targets :: "node list" where
  "conditional_targets = [agent_executor_node, END]"

definition graph_edge :: "node \<Rightarrow> node \<Rightarrow> bool" where
  "graph_edge a b \<longleftrightarrow> (a, b) \<in> set edges \<or> (a = replanner_node \<and> b \<in> set conditional_targets)"

definition next_node :: "node \<Rightarrow> State \<Rightarrow> node option" where
  "next_node n state =
     (if n = replanner_node then
        (let t = should_end state in if t \<in> set conditional_targets then Some t else None)
      else map_of edges n)"

text \<open>The function each node name is bound to by \<^verbatim>\<open>add_node\<close>; \<open>START\<close> and \<open>END\<close> run nothing.\<close>

definition run_node :: "Env \<Rightarrow> string \<Rightarrow> node \<Rightarrow> State \<Rightarrow> Update option result" where
  "run_node env resume n state =
     (case n of
        START \<Rightarrow> ([], Inr None)
      | supervisor_node \<Rightarrow> (case supervisor env state of (cs, r) \<Rightarrow> (cs, map_sum id Some r))
      | human_input_node \<Rightarrow> human_input env state resume
      | agent_executor_node \<Rightarrow> (case agent_executor env state of (cs, r) \<Rightarrow> (cs, map_sum id Some r))
      | replanner_node \<Rightarrow> (case replanner env state of (cs, r) \<Rightarrow> (cs, map_sum id Some r))
      | END \<Rightarrow> ([], Inr None))"

text \<open>
  One step of the graph from a configuration (the node about to run and the state): run the
  node, merge what it returns, follow the edge. An exception aborts the run. The event is
  what \<^verbatim>\<open>stream_mode="updates"\<close> reports: the node and the update it returned. A run of at
  most \<open>k\<close> steps stops early at \<open>END\<close>; \<open>resume\<close> is the payload the human review is resumed
  with. The model and the remote graphs need not answer the same request the same way twice:
  \<open>envs i\<close> is what they are when step \<open>i\<close> of the run is taken.
\<close>

type_synonym config = "node \<times> State"
type_synonym event = "node \<times> Update option"

definition superstep :: "Env \<Rightarrow> string \<Rightarrow> config \<Rightarrow> error + (event \<times> config) option" where
  "superstep env resume c =
     (case c of (n, state) \<Rightarrow>
        (case snd (run_node env resume n state) of
           Inl e \<Rightarrow> Inl e
         | Inr u \<Rightarrow>
             (let state' = apply_update state u
              in case next_node n state' of
                   None \<Rightarrow> Inr None
                 | Some n' \<Rightarrow> Inr (Some ((n, u), (n', state'))))))"

fun run :: "(nat \<Rightarrow> Env) \<Rightarrow> string \<Rightarrow> nat \<Rightarrow> config \<Rightarrow> error + (event list \<times> config)" where
  "run envs resume 0 c = Inr ([], c)"
| "run envs resume (Suc k) c =
     (case superstep (envs 0) resume c of
        Inl e \<Rightarrow> Inl e
      | Inr None \<Rightarrow> Inr ([], c)
      | Inr (Some (ev, c')) \<Rightarrow>
          (case run (\<lambda>i. envs (Suc i)) resume k c' of
             Inl e \<Rightarrow> Inl e
           | Inr (evs, c'') \<Rightarrow> Inr (ev # evs, c'')))"

text \<open>The state a session starts from: the input holds the key \<^verbatim>\<open>messages\<close> only (line 327).\<close>

definition initial_state :: "Message list \<Rightarrow> State" where
  "initial_state msgs =
     \<lparr>original_objective = None, action_plan = None, messages = msgs,
      past_steps = [], response = None\<rparr>"

text \<open>
  The order of section 4.5 of the specification, as the node that runs at position \<open>i\<close> of a
  session: start, Supervisor, HumanReviewGate, then Executor and Replanner in turn. The runs of
  the graph above are compared with it.
\<close>

fun spec_pass_node :: "nat \<Rightarrow> node" where
  "spec_pass_node i =
     (if i = 0 then START else if i = 1 then supervisor_node
      else if i = 2 then human_input_node
      else if odd i then agent_executor_node else replanner_node)"

text \<open>What a trace says about the executor: how often it completed, and what it appended.\<close>

definition executor_events :: "event list \<Rightarrow> event list" where
  "executor_events evs = filter (\<lambda>ev. fst ev = agent_executor_node) evs"

definition appended_records :: "event \<Rightarrow> (string \<times> string) list" where
  "appended_records ev =
     (case snd ev of
        None \<Rightarrow> []
      | Some u \<Rightarrow> (case upd_past_steps u of None \<Rightarrow> [] | Some l \<Rightarrow> l))"

text \<open>
  What the executor needs of a state to select the step at position 0: both keys it reads
  are present and the plan has a first step.
\<close>

definition plan_ready :: "State \<Rightarrow> bool" where
  "plan_ready st \<longleftrightarrow>
     (case action_plan st of None \<Rightarrow> False | Some plan \<Rightarrow> plan \<noteq> []) \<and>
     original_objective st \<noteq> None"

section \<open>Example sessions\<close>

text \<open>
  Concrete collaborators and inputs on which the theorems below are instantiated: a model that
  plans two steps and then answers, one that always continues with a one-step plan, one whose
  continuation plan is empty, and a remote graph whose answer ends with the result.
\<close>

definition step_customer :: Step where
  "step_customer = \<lparr>description = ''Look up the name of customer 1'',
                     subagent = ''customer_information_subagent''\<rparr>"

definition step_catalog :: Step where
  "step_catalog = \<lparr>description = ''List the albums by U2'',
                    subagent = ''music_catalog_information_subagent''\<rparr>"

definition step_invoice :: Step where
  "step_invoice = \<lparr>description = ''Find the most recent purchase of customer 1'',
                    subagent = ''invoice_information_subagent''\<rparr>"

definition step_unknown :: Step where
  "step_unknown = \<lparr>description = ''Track the parcel'', subagent = ''shipping_subagent''\<rparr>"

definition remote_answer :: "string \<rightharpoonup> (string \<rightharpoonup> string) list" where
  "remote_answer =
     [''messages'' \<mapsto> [[''content'' \<mapsto> ''task''], [''content'' \<mapsto> ''The name is Luis'']]]"

definition env_demo :: Env where
  "env_demo =
     \<lparr>invoke_Plan = (\<lambda>_. Inr \<lparr>steps = [step_customer, step_invoice]\<rparr>),
      invoke_PlanWithUserInput =
        (\<lambda>_. Inr \<lparr>steps = [step_catalog], updated_objective = ''Which albums by U2 are there?''\<rparr>),
      invoke_ReplannerResponse = (\<lambda>_. Inr \<lparr>action = Response ''Your name is Luis.''\<rparr>),
      invoke_remote = (\<lambda>_ _. Inr remote_answer)\<rparr>"

definition env_continue :: Env where
  "env_continue =
     env_demo\<lparr>invoke_ReplannerResponse :=
                (\<lambda>_. Inr \<lparr>action = Plan_action \<lparr>steps = [step_invoice]\<rparr>\<rparr>)\<rparr>"

definition env_empty_plan :: Env where
  "env_empty_plan =
     env_demo\<lparr>invoke_ReplannerResponse := (\<lambda>_. Inr \<lparr>action = Plan_action \<lparr>steps = []\<rparr>\<rparr>)\<rparr>"

definition msgs_demo :: "Message list" where
  "msgs_demo = [HumanMessage ''my customer ID is 1. what is my name?'']"

definition msgs_with_tool :: "Message list" where
  "msgs_with_tool =
     [HumanMessage ''hello'',
      \<lparr>msg_type = ''ai'', content = ''looking it up''\<rparr>,
      \<lparr>msg_type = ''tool'', content = ''customer 1: Luis''\<rparr>,
      HumanMessage ''what albums by U2 are there?'']"

text \<open>The state after the supervisor has planned for \<open>msgs_demo\<close>, and variants of it.\<close>

definition state_planned :: State where
  "state_planned =
     \<lparr>original_objective = Some ''my customer ID is 1. what is my name?'',
      action_plan = Some [step_customer, step_invoice],
      messages = msgs_demo, past_steps = [], response = None\<rparr>"

definition state_unknown :: State where
  "state_unknown = state_planned\<lparr>action_plan := Some [step_unknown, step_customer]\<rparr>"

definition state_empty_plan :: State where
  "state_empty_plan =
     state_planned\<lparr>action_plan := Some [],
       past_steps := [(''customer_information_subagent executed logic to answer the following request from the planner/supervisor: Look up the name of customer 1'',
                       ''The name is Luis'')]\<rparr>"

section \<open>Properties\<close>

lemmas node_defs =
  supervisor_def human_input_def agent_executor_def replanner_def
  invoke_remote_graph_def read_final_response_def

lemmas graph_defs =
  superstep_def run_node_def apply_update_def empty_update_def next_node_def edges_def
  conditional_targets_def should_end_def initial_state_def

lemmas example_defs =
  step_customer_def step_catalog_def step_invoice_def step_unknown_def remote_answer_def
  env_demo_def env_continue_def env_empty_plan_def msgs_demo_def msgs_with_tool_def
  state_planned_def
  state_unknown_def state_empty_plan_def

subsection \<open>Routing after the replanner\<close>

lemma next_node_simps:
  "next_node START st = Some supervisor_node"
  "next_node supervisor_node st = Some human_input_node"
  "next_node human_input_node st = Some agent_executor_node"
  "next_node agent_executor_node st = Some replanner_node"
  "next_node replanner_node st = Some (should_end st)"
  "next_node END st = None"
  by (simp_all add: next_node_def edges_def conditional_targets_def should_end_def)

text \<open>
  C3. For every state, \<open>should_end\<close> answers \<open>END\<close> exactly when the key \<^verbatim>\<open>response\<close> is present
  and holds a non-empty string, and answers the executor node in every other case (key absent,
  or empty string); the edge out of the replanner follows this answer.
\<close>

theorem should_end_iff_response_nonempty:
  "should_end state =
     (if (\<exists>r. response state = Some r \<and> r \<noteq> '''') then END else agent_executor_node) \<and>
   next_node replanner_node state = Some (should_end state)"
  by (cases "response state") (simp_all add: should_end_def next_node_def conditional_targets_def)

subsection \<open>The shape of the graph and of its runs\<close>

lemma graph_edge_cases:
  "graph_edge a b \<longleftrightarrow>
     (a = START \<and> b = supervisor_node) \<or> (a = supervisor_node \<and> b = human_input_node) \<or>
     (a = human_input_node \<and> b = agent_executor_node) \<or>
     (a = agent_executor_node \<and> b = replanner_node) \<or>
     (a = replanner_node \<and> b = agent_executor_node) \<or> (a = replanner_node \<and> b = END)"
  by (auto simp: graph_edge_def edges_def conditional_targets_def)

lemma next_node_graph_edge: "next_node n st = Some n' \<Longrightarrow> graph_edge n n'"
  by (cases n) (auto simp: next_node_def graph_edge_def edges_def Let_def split: if_splits)

lemma superstep_SomeD:
  assumes "superstep env r (n, st) = Inr (Some (ev, (n', st')))"
  shows "\<exists>u. snd (run_node env r n st) = Inr u \<and> ev = (n, u) \<and> st' = apply_update st u \<and>
             next_node n st' = Some n'"
  using assms by (auto simp: superstep_def Let_def split: sum.splits option.splits)

lemma run_at_END: "run envs r k (END, st) = Inr ([], (END, st))"
  by (cases k) (simp_all add: superstep_def run_node_def apply_update_def next_node_simps)

text \<open>Unfolding one step of a successful run.\<close>

lemma run_SucD:
  assumes "run envs r (Suc k) c = Inr (evs, c2)"
  shows "(superstep (envs 0) r c = Inr None \<and> evs = [] \<and> c2 = c) \<or>
         (\<exists>ev c1 evs1. superstep (envs 0) r c = Inr (Some (ev, c1)) \<and>
            run (\<lambda>i. envs (Suc i)) r k c1 = Inr (evs1, c2) \<and> evs = ev # evs1)"
  using assms by (auto split: sum.splits option.splits prod.splits)

lemma edge_spec_pass_node:
  "graph_edge (spec_pass_node j) b \<Longrightarrow> b = spec_pass_node (Suc j) \<or> b = END"
  by (auto simp: graph_edge_cases split: if_splits)

lemma run_trace_nodes:
  "run envs r k (spec_pass_node j, st) = Inr (evs, (n, st')) \<Longrightarrow>
     (\<forall>i < length evs. fst (evs ! i) = spec_pass_node (j + i)) \<and>
     (n = spec_pass_node (j + length evs) \<or> n = END)"
proof (induction k arbitrary: envs j st evs)
  case 0
  then show ?case by simp
next
  case (Suc k)
  from run_SucD[OF Suc.prems] show ?case
  proof (elim disjE conjE exE)
    assume "evs = []" "(n, st') = (spec_pass_node j, st)"
    then show ?thesis by simp
  next
    fix ev c1 evs1
    assume ss: "superstep (envs 0) r (spec_pass_node j, st) = Inr (Some (ev, c1))"
      and rest: "run (\<lambda>i. envs (Suc i)) r k c1 = Inr (evs1, (n, st'))"
      and evs: "evs = ev # evs1"
    obtain n1 st1 where c1: "c1 = (n1, st1)" by (cases c1)
    from superstep_SomeD[OF ss[unfolded c1]]
    have ev: "fst ev = spec_pass_node j" and nx: "next_node (spec_pass_node j) st1 = Some n1"
      by auto
    from next_node_graph_edge[OF nx] edge_spec_pass_node
    have "n1 = spec_pass_node (Suc j) \<or> n1 = END" by blast
    then show ?thesis
    proof
      assume "n1 = spec_pass_node (Suc j)"
      with rest c1
      have "run (\<lambda>i. envs (Suc i)) r k (spec_pass_node (Suc j), st1) = Inr (evs1, (n, st'))"
        by simp
      from Suc.IH[OF this]
      have ih: "\<forall>i<length evs1. fst (evs1 ! i) = spec_pass_node (Suc j + i)"
        "n = spec_pass_node (Suc j + length evs1) \<or> n = END" by auto
      have "fst (evs ! i) = spec_pass_node (j + i)" if "i < length evs" for i
        using that ih(1) ev evs by (cases i) auto
      moreover have "n = spec_pass_node (j + length evs) \<or> n = END" using ih(2) evs by simp
      ultimately show ?thesis by blast
    next
      assume "n1 = END"
      with rest c1 run_at_END[of "\<lambda>i. envs (Suc i)" r k st1] have "evs1 = []" "n = END" by auto
      with evs ev show ?thesis by simp
    qed
  qed
qed

lemma edge_on_cycle:
  assumes e: "graph_edge a b" and ret: "graph_edge\<^sup>*\<^sup>* b a"
  shows "(a = replanner_node \<and> b = agent_executor_node) \<or>
         (a = agent_executor_node \<and> b = replanner_node)"
proof -
  define rk :: "node \<Rightarrow> nat" where
    "rk = (\<lambda>n. case n of START \<Rightarrow> 0 | supervisor_node \<Rightarrow> 1 | human_input_node \<Rightarrow> 2
                 | agent_executor_node \<Rightarrow> 3 | replanner_node \<Rightarrow> 3 | END \<Rightarrow> 4)"
  have mono: "rk x \<le> rk y" if "graph_edge x y" for x y
    using that by (auto simp: graph_edge_cases rk_def)
  have "rk b \<le> rk a" using ret
    by (induction rule: rtranclp_induct) (auto dest: mono)
  with e show ?thesis by (auto simp: graph_edge_cases rk_def)
qed

text \<open>
  C10. The edges are start to Supervisor to HumanReviewGate to Executor to Replanner, and
  from the Replanner to the Executor when \<^verbatim>\<open>response\<close> is absent or empty, to the end otherwise.
  Every edge that lies on a cycle is one of the two between Executor and Replanner, so the
  only cycle is the one the Replanner closes. In every run from the start, the node at
  position 0 is the start, at 1 the Supervisor, at 2 the HumanReviewGate, and from position 3
  on Executor (odd) and Replanner (even) alternate: Supervisor and HumanReviewGate never run
  again.
\<close>

theorem control_flow_fixed_order:
  "next_node START st = Some supervisor_node \<and>
   next_node supervisor_node st = Some human_input_node \<and>
   next_node human_input_node st = Some agent_executor_node \<and>
   next_node agent_executor_node st = Some replanner_node \<and>
   next_node replanner_node st =
     Some (if (\<exists>r. response st = Some r \<and> r \<noteq> []) then END else agent_executor_node) \<and>
   next_node END st = None \<and>
   (\<forall>a b. graph_edge a b \<and> graph_edge\<^sup>*\<^sup>* b a \<longrightarrow>
      (a = replanner_node \<and> b = agent_executor_node) \<or>
      (a = agent_executor_node \<and> b = replanner_node)) \<and>
   (\<forall>evs n st'. run envs resume k (START, st0) = Inr (evs, (n, st')) \<longrightarrow>
      (\<forall>i < length evs. fst (evs ! i) = spec_pass_node i) \<and>
      (n = END \<or> n = spec_pass_node (length evs)))"
proof -
  have dyn: "\<forall>evs n st'. run envs resume k (START, st0) = Inr (evs, (n, st')) \<longrightarrow>
      (\<forall>i < length evs. fst (evs ! i) = spec_pass_node i) \<and>
      (n = END \<or> n = spec_pass_node (length evs))"
  proof (intro allI impI)
    fix evs n st'
    assume "run envs resume k (START, st0) = Inr (evs, (n, st'))"
    then have "run envs resume k (spec_pass_node 0, st0) = Inr (evs, (n, st'))" by simp
    from run_trace_nodes[OF this]
    show "(\<forall>i < length evs. fst (evs ! i) = spec_pass_node i) \<and>
          (n = END \<or> n = spec_pass_node (length evs))"
      by (simp del: spec_pass_node.simps) blast
  qed
  have cyc: "\<forall>a b. graph_edge a b \<and> graph_edge\<^sup>*\<^sup>* b a \<longrightarrow>
      (a = replanner_node \<and> b = agent_executor_node) \<or>
      (a = agent_executor_node \<and> b = replanner_node)"
    using edge_on_cycle by blast
  have rp: "next_node replanner_node st =
     Some (if (\<exists>r. response st = Some r \<and> r \<noteq> []) then END else agent_executor_node)"
    by (cases "response st") (simp_all add: next_node_simps should_end_def)
  from next_node_simps(1-4,6) rp cyc dyn show ?thesis by (intro conjI)
qed

theorem control_flow_fixed_order_witness:
  "map fst (fst (projr (run (\<lambda>_. env_continue) [] 7 (START, initial_state msgs_demo)))) =
     map spec_pass_node [0 ..< 7] \<and>
   next_node replanner_node state_planned = Some agent_executor_node \<and>
   graph_edge replanner_node agent_executor_node \<and>
   graph_edge\<^sup>*\<^sup>* agent_executor_node replanner_node"
proof -
  have "\<exists>evs n st'. run (\<lambda>_. env_continue) [] 7 (START, initial_state msgs_demo) = Inr (evs, (n, st')) \<and>
          length evs = 7"
    by (simp add: node_defs graph_defs example_defs eval_nat_numeral Let_def)
  then obtain evs n st'
    where r: "run (\<lambda>_. env_continue) [] 7 (START, initial_state msgs_demo) = Inr (evs, (n, st'))"
      and len: "length evs = 7" by blast
  note inst = control_flow_fixed_order[of state_planned "\<lambda>_. env_continue" "[]" 7
      "initial_state msgs_demo"]
  from inst r have "\<forall>i < length evs. fst (evs ! i) = spec_pass_node i" by blast
  with len have "map fst evs = map spec_pass_node [0 ..< 7]"
    by (intro nth_equalityI) (simp_all del: spec_pass_node.simps)
  moreover from inst have "next_node replanner_node state_planned = Some agent_executor_node"
    by (simp add: example_defs)
  moreover have "graph_edge replanner_node agent_executor_node"
    "graph_edge agent_executor_node replanner_node"
    by (simp_all add: graph_edge_cases)
  ultimately show ?thesis using r by auto
qed

subsection \<open>The executor\<close>

lemma known_subagent_cases:
  "known_subagent a \<longleftrightarrow>
     a = ''customer_information_subagent'' \<or> a = ''music_catalog_information_subagent'' \<or>
     a = ''invoice_information_subagent''"
  by (simp add: known_subagent_def)

text \<open>What the executor does once both keys are present and the plan is not empty.\<close>

lemma agent_executor_unmatched:
  assumes "action_plan state = Some plan" and "original_objective state = Some obj"
    and "plan \<noteq> []" and "\<not> known_subagent (subagent (plan ! 0))"
  shows "agent_executor env state = ([], Inl (UnboundLocalError ''final_response''))"
  using assms by (simp add: agent_executor_def known_subagent_def Let_def)

lemma agent_executor_matched:
  assumes "action_plan state = Some plan" and "original_objective state = Some obj"
    and "plan \<noteq> []" and "known_subagent (subagent (plan ! 0))"
  shows "\<exists>g. g = (if subagent (plan ! 0) = ''customer_information_subagent''
                    then customer_information_remote_graph
                  else if subagent (plan ! 0) = ''music_catalog_information_subagent''
                    then music_catalog_information_remote_graph
                  else invoice_information_remote_graph) \<and>
         agent_executor env state =
           (case invoke_remote_graph env g
                   (task_formatted_prompt plan (subagent (plan ! 0)) (description (plan ! 0))) of
              (calls, Inl e) \<Rightarrow> (calls, Inl e)
            | (calls, Inr final_response) \<Rightarrow>
                (calls,
                 Inr (empty_update\<lparr>upd_past_steps :=
                   Some [(subagent (plan ! 0) @
                          '' executed logic to answer the following request from the planner/supervisor: '' @
                          description (plan ! 0), final_response)]\<rparr>)))"
proof -
  from assms(4) consider
      (customer) "subagent (plan ! 0) = ''customer_information_subagent''"
    | (music) "subagent (plan ! 0) = ''music_catalog_information_subagent''"
    | (invoice) "subagent (plan ! 0) = ''invoice_information_subagent''"
    unfolding known_subagent_cases by blast
  then show ?thesis
  proof cases
    case customer
    with assms(1-3) show ?thesis
      by (intro exI[of _ customer_information_remote_graph])
         (auto simp: agent_executor_def Let_def split: prod.splits sum.splits)
  next
    case music
    with assms(1-3) show ?thesis
      by (intro exI[of _ music_catalog_information_remote_graph])
         (auto simp: agent_executor_def Let_def split: prod.splits sum.splits)
  next
    case invoice
    with assms(1-3) show ?thesis
      by (intro exI[of _ invoice_information_remote_graph])
         (auto simp: agent_executor_def Let_def split: prod.splits sum.splits)
  qed
qed

lemma agent_executor_InrD:
  assumes "agent_executor env state = (calls, Inr u)"
  shows "\<exists>plan obj r. action_plan state = Some plan \<and> original_objective state = Some obj \<and>
           plan \<noteq> [] \<and> known_subagent (subagent (plan ! 0)) \<and>
           u = empty_update\<lparr>upd_past_steps := Some [r]\<rparr>"
proof -
  from assms obtain plan where p: "action_plan state = Some plan"
    by (cases "action_plan state") (simp_all add: agent_executor_def)
  from assms p obtain obj where ob: "original_objective state = Some obj"
    by (cases "original_objective state") (simp_all add: agent_executor_def)
  from assms p ob have ne: "plan \<noteq> []"
    by (auto simp: agent_executor_def)
  have kn: "known_subagent (subagent (plan ! 0))"
  proof (rule ccontr)
    assume "\<not> known_subagent (subagent (plan ! 0))"
    from agent_executor_unmatched[OF p ob ne this] assms show False by simp
  qed
  from agent_executor_matched[OF p ob ne kn, of env] obtain g where
    g: "agent_executor env state =
           (case invoke_remote_graph env g
                   (task_formatted_prompt plan (subagent (plan ! 0)) (description (plan ! 0))) of
              (calls, Inl e) \<Rightarrow> (calls, Inl e)
            | (calls, Inr final_response) \<Rightarrow>
                (calls,
                 Inr (empty_update\<lparr>upd_past_steps :=
                   Some [(subagent (plan ! 0) @
                          '' executed logic to answer the following request from the planner/supervisor: '' @
                          description (plan ! 0), final_response)]\<rparr>)))" by blast
  obtain cs res where ir: "invoke_remote_graph env g
      (task_formatted_prompt plan (subagent (plan ! 0)) (description (plan ! 0))) = (cs, res)"
    by (cases "invoke_remote_graph env g
      (task_formatted_prompt plan (subagent (plan ! 0)) (description (plan ! 0)))")
  have "\<exists>r. u = empty_update\<lparr>upd_past_steps := Some [r]\<rparr>"
  proof (cases res)
    case (Inl e)
    with g ir assms show ?thesis by simp
  next
    case (Inr fr)
    with g ir assms show ?thesis by auto
  qed
  then obtain r where "u = empty_update\<lparr>upd_past_steps := Some [r]\<rparr>" ..
  with p ob ne kn show ?thesis by blast
qed

text \<open>
  C1 as stated fails: on a plan whose first step carries the tag \<^verbatim>\<open>shipping_subagent\<close> the
  executor reports the unbound variable, not an unknown capability.
\<close>

theorem executor_unknown_capability_counterexample:
  "action_plan state_unknown = Some [step_unknown, step_customer] \<and>
   \<not> known_subagent (subagent step_unknown) \<and>
   agent_executor env_demo state_unknown = ([], Inl (UnboundLocalError ''final_response'')) \<and>
   snd (agent_executor env_demo state_unknown) \<noteq> Inl UnknownCapabilityError"
  by (simp add: agent_executor_def known_subagent_def example_defs Let_def)

text \<open>
  C1, amended. For every executor invocation on a state that holds both keys, whose plan is
  not empty and whose first step's capability tag is none of the three the dispatch compares
  with: no branch of the dispatch is taken, no remote graph is invoked, no update is returned,
  and the invocation fails with the \<open>UnboundLocalError\<close> that reading the unassigned
  \<^verbatim>\<open>final_response\<close> raises. The source has no guard of its own for this case.
\<close>

theorem executor_unmatched_capability_fails:
  assumes "action_plan state = Some plan" and "original_objective state = Some obj"
    and "plan \<noteq> []" and "\<not> known_subagent (subagent (plan ! 0))"
  shows "agent_executor env state = ([], Inl (UnboundLocalError ''final_response''))"
  using assms by (rule agent_executor_unmatched)

theorem executor_unmatched_capability_fails_witness:
  "action_plan state_unknown = Some [step_unknown, step_customer] \<and>
   original_objective state_unknown = Some ''my customer ID is 1. what is my name?'' \<and>
   \<not> known_subagent (subagent ([step_unknown, step_customer] ! 0)) \<and>
   agent_executor env_continue state_unknown = ([], Inl (UnboundLocalError ''final_response''))"
proof -
  have a: "action_plan state_unknown = Some [step_unknown, step_customer]"
    and b: "original_objective state_unknown = Some ''my customer ID is 1. what is my name?''"
    and c: "[step_unknown, step_customer] \<noteq> []"
    and d: "\<not> known_subagent (subagent ([step_unknown, step_customer] ! 0))"
    by (simp_all add: example_defs known_subagent_def)
  from executor_unmatched_capability_fails[OF a b c d, of env_continue] a b d
  show ?thesis by blast
qed

lemma enumerate_from_0: "enumerate_from 0 xs = map (\<lambda>i. (i, xs ! i)) [0 ..< length xs]"
  unfolding enumerate_from_def by (intro nth_equalityI) simp_all

lemma total_plan_by_index:
  "total_plan plan =
     join ''\<newline>''
       (map (\<lambda>i. str_nat (i + 1) @ ''. '' @ subagent (plan ! i) @ '' will: '' @ description (plan ! i))
            [0 ..< length plan])"
  unfolding total_plan_def enumerate_from_0 by (simp add: comp_def del: str_nat.simps)

lemma invoke_remote_graph_calls:
  "fst (invoke_remote_graph env g p) = [Remote_invoke g [HumanMessage p]]"
  by (simp add: invoke_remote_graph_def Let_def)

lemma agent_executor_calls_matched:
  assumes "action_plan state = Some plan" and "original_objective state = Some obj"
    and "plan \<noteq> []" and "known_subagent (subagent (plan ! 0))"
  shows "fst (agent_executor env state) =
           [Remote_invoke
              (if subagent (plan ! 0) = ''customer_information_subagent''
                 then customer_information_remote_graph
               else if subagent (plan ! 0) = ''music_catalog_information_subagent''
                 then music_catalog_information_remote_graph
               else invoice_information_remote_graph)
              [HumanMessage
                 (task_formatted_prompt plan (subagent (plan ! 0)) (description (plan ! 0)))]]"
proof -
  from agent_executor_matched[OF assms, of env] obtain g where
    g: "g = (if subagent (plan ! 0) = ''customer_information_subagent''
               then customer_information_remote_graph
             else if subagent (plan ! 0) = ''music_catalog_information_subagent''
               then music_catalog_information_remote_graph
             else invoice_information_remote_graph)"
    and ex: "fst (agent_executor env state) =
       fst (invoke_remote_graph env g
              (task_formatted_prompt plan (subagent (plan ! 0)) (description (plan ! 0))))"
    by (auto split: prod.splits sum.splits)
  from ex show ?thesis unfolding invoke_remote_graph_calls g .
qed

lemma agent_executor_calls_le_1: "length (fst (agent_executor env state)) \<le> 1"
proof (cases "action_plan state")
  case None
  then show ?thesis by (simp add: agent_executor_def)
next
  case (Some plan)
  note p = this
  show ?thesis
  proof (cases "original_objective state")
    case None
    with p show ?thesis by (simp add: agent_executor_def)
  next
    case (Some obj)
    note ob = this
    show ?thesis
    proof (cases "plan = []")
      case True
      with p ob show ?thesis by (simp add: agent_executor_def)
    next
      case False
      show ?thesis
      proof (cases "known_subagent (subagent (plan ! 0))")
        case True
        from agent_executor_calls_matched[OF p ob False True] show ?thesis by simp
      next
        case no: False
        from agent_executor_unmatched[OF p ob False no] show ?thesis by simp
      qed
    qed
  qed
qed

text \<open>
  C7. On every call the executor invokes at most one remote graph. When the plan is not empty
  and the tag of its step at index 0 is one of the three, it invokes exactly one: the remote
  graph that tag selects, nothing else of the plan deciding the choice. The only message it
  sends is the task prompt, which holds every step of the plan in order, step \<open>i\<close> (counted
  from 0) rendered as its index \<open>i + 1\<close>, a dot, the capability, \<^verbatim>\<open>will:\<close> and the description,
  followed by the instruction to execute the first step #1, which names the capability and
  the description of the step at index 0.
\<close>

theorem executor_dispatches_first_step_only:
  "length (fst (agent_executor env state)) \<le> 1 \<and>
   (\<forall>plan obj.
      action_plan state = Some plan \<and> original_objective state = Some obj \<and> plan \<noteq> [] \<and>
      known_subagent (subagent (plan ! 0)) \<longrightarrow>
      fst (agent_executor env state) =
        [Remote_invoke
           (if subagent (plan ! 0) = ''customer_information_subagent''
              then customer_information_remote_graph
            else if subagent (plan ! 0) = ''music_catalog_information_subagent''
              then music_catalog_information_remote_graph
            else invoice_information_remote_graph)
           [HumanMessage
              (''For the following plan: \<newline>    '' @
               join ''\<newline>''
                 (map (\<lambda>i. str_nat (i + 1) @ ''. '' @ subagent (plan ! i) @ '' will: '' @
                            description (plan ! i))
                      [0 ..< length plan]) @
               ''\<newline>    You are tasked with executing the first step #1. '' @
               subagent (plan ! 0) @ '' will: '' @ description (plan ! 0) @ ''\<newline>    '')]])"
proof (intro conjI allI impI)
  show "length (fst (agent_executor env state)) \<le> 1" by (rule agent_executor_calls_le_1)
next
  fix plan obj
  assume h: "action_plan state = Some plan \<and> original_objective state = Some obj \<and> plan \<noteq> [] \<and>
      known_subagent (subagent (plan ! 0))"
  have pr: "task_formatted_prompt plan (subagent (plan ! 0)) (description (plan ! 0)) =
      ''For the following plan: \<newline>    '' @
               join ''\<newline>''
                 (map (\<lambda>i. str_nat (i + 1) @ ''. '' @ subagent (plan ! i) @ '' will: '' @
                            description (plan ! i))
                      [0 ..< length plan]) @
               ''\<newline>    You are tasked with executing the first step #1. '' @
               subagent (plan ! 0) @ '' will: '' @ description (plan ! 0) @ ''\<newline>    ''"
    unfolding task_formatted_prompt_def total_plan_by_index by simp
  from h have "action_plan state = Some plan" "original_objective state = Some obj" "plan \<noteq> []"
    "known_subagent (subagent (plan ! 0))" by simp_all
  from agent_executor_calls_matched[OF this, of env]
  show "fst (agent_executor env state) =
        [Remote_invoke
           (if subagent (plan ! 0) = ''customer_information_subagent''
              then customer_information_remote_graph
            else if subagent (plan ! 0) = ''music_catalog_information_subagent''
              then music_catalog_information_remote_graph
            else invoice_information_remote_graph)
           [HumanMessage
              (''For the following plan: \<newline>    '' @
               join ''\<newline>''
                 (map (\<lambda>i. str_nat (i + 1) @ ''. '' @ subagent (plan ! i) @ '' will: '' @
                            description (plan ! i))
                      [0 ..< length plan]) @
               ''\<newline>    You are tasked with executing the first step #1. '' @
               subagent (plan ! 0) @ '' will: '' @ description (plan ! 0) @ ''\<newline>    '')]]"
    unfolding pr .
qed

theorem executor_dispatches_first_step_only_witness:
  "action_plan state_planned = Some [step_customer, step_invoice] \<and>
   known_subagent (subagent ([step_customer, step_invoice] ! 0)) \<and>
   fst (agent_executor env_demo state_planned) =
     [Remote_invoke customer_information_remote_graph
        [HumanMessage
           ''For the following plan: \<newline>    1. customer_information_subagent will: Look up the name of customer 1\<newline>2. invoice_information_subagent will: Find the most recent purchase of customer 1\<newline>    You are tasked with executing the first step #1. customer_information_subagent will: Look up the name of customer 1\<newline>    '']]"
proof -
  have h: "action_plan state_planned = Some [step_customer, step_invoice] \<and>
      original_objective state_planned = Some ''my customer ID is 1. what is my name?'' \<and>
      [step_customer, step_invoice] \<noteq> [] \<and>
      known_subagent (subagent ([step_customer, step_invoice] ! 0))"
    by (simp add: example_defs known_subagent_def)
  from executor_dispatches_first_step_only[of env_demo state_planned] h
  have "fst (agent_executor env_demo state_planned) =
        [Remote_invoke
           (if subagent ([step_customer, step_invoice] ! 0) = ''customer_information_subagent''
              then customer_information_remote_graph
            else if subagent ([step_customer, step_invoice] ! 0) = ''music_catalog_information_subagent''
              then music_catalog_information_remote_graph
            else invoice_information_remote_graph)
           [HumanMessage
              (''For the following plan: \<newline>    '' @
               join ''\<newline>''
                 (map (\<lambda>i. str_nat (i + 1) @ ''. '' @ subagent ([step_customer, step_invoice] ! i) @ '' will: '' @
                            description ([step_customer, step_invoice] ! i))
                      [0 ..< length [step_customer, step_invoice]]) @
               ''\<newline>    You are tasked with executing the first step #1. '' @
               subagent ([step_customer, step_invoice] ! 0) @ '' will: '' @
               description ([step_customer, step_invoice] ! 0) @ ''\<newline>    '')]]"
    by blast
  also have "\<dots> = [Remote_invoke customer_information_remote_graph
        [HumanMessage
           ''For the following plan: \<newline>    1. customer_information_subagent will: Look up the name of customer 1\<newline>2. invoice_information_subagent will: Find the most recent purchase of customer 1\<newline>    You are tasked with executing the first step #1. customer_information_subagent will: Look up the name of customer 1\<newline>    '']]"
    by (simp add: step_customer_def step_invoice_def digit_char_def upt_rec)
  finally show ?thesis using h by blast
qed

lemma apply_update_past_steps_only:
  "apply_update state (Some (empty_update\<lparr>upd_past_steps := Some l\<rparr>)) =
     state\<lparr>past_steps := past_steps state @ l\<rparr>"
  by (simp add: apply_update_def empty_update_def)

lemma replanner_calls:
  assumes "original_objective state = Some obj" and "action_plan state = Some plan"
  shows "fst (replanner env state) =
           [Model_invoke ReplannerResponse_schema
              [SystemMessage (replanner_prompt obj (format_action_plan plan)
                                (format_steps (past_steps state)))]]"
  using assms by (simp add: replanner_def Let_def split: sum.splits)

text \<open>
  C8. A completed executor call returns an update that holds the key \<^verbatim>\<open>past_steps\<close> only, with
  one record. Merging it leaves \<^verbatim>\<open>action_plan\<close>, \<^verbatim>\<open>original_objective\<close>, \<^verbatim>\<open>response\<close> and
  \<^verbatim>\<open>messages\<close> as they were and appends the record to \<^verbatim>\<open>past_steps\<close>; the replanner that runs next
  builds its prompt from the objective and the plan that were in the state before the step was
  executed, and from the history with the new record at its end.
\<close>

theorem executor_update_touches_only_past_steps:
  assumes "agent_executor env state = (calls, Inr u)"
  shows "upd_action_plan u = None \<and> upd_original_objective u = None \<and> upd_response u = None \<and>
         (\<exists>r. upd_past_steps u = Some [r] \<and>
              past_steps (apply_update state (Some u)) = past_steps state @ [r]) \<and>
         action_plan (apply_update state (Some u)) = action_plan state \<and>
         original_objective (apply_update state (Some u)) = original_objective state \<and>
         response (apply_update state (Some u)) = response state \<and>
         messages (apply_update state (Some u)) = messages state \<and>
         (\<exists>obj plan r.
            original_objective state = Some obj \<and> action_plan state = Some plan \<and>
            upd_past_steps u = Some [r] \<and>
            fst (replanner env' (apply_update state (Some u))) =
              [Model_invoke ReplannerResponse_schema
                 [SystemMessage (replanner_prompt obj (format_action_plan plan)
                                   (format_steps (past_steps state @ [r])))]])"
proof -
  from agent_executor_InrD[OF assms] obtain plan obj r where
    p: "action_plan state = Some plan" and ob: "original_objective state = Some obj"
    and u: "u = empty_update\<lparr>upd_past_steps := Some [r]\<rparr>" by blast
  have st: "apply_update state (Some u) = state\<lparr>past_steps := past_steps state @ [r]\<rparr>"
    unfolding u by (rule apply_update_past_steps_only)
  have ur: "upd_past_steps u = Some [r]" by (simp add: u empty_update_def)
  have keys: "upd_action_plan u = None" "upd_original_objective u = None" "upd_response u = None"
    by (simp_all add: u empty_update_def)
  have "fst (replanner env' (apply_update state (Some u))) =
      [Model_invoke ReplannerResponse_schema
         [SystemMessage (replanner_prompt obj (format_action_plan plan)
                           (format_steps (past_steps state @ [r])))]]"
    using replanner_calls[of "apply_update state (Some u)" obj plan env'] p ob by (simp add: st)
  with keys ur p ob st show ?thesis by simp
qed

theorem executor_update_touches_only_past_steps_witness:
  "agent_executor env_demo state_planned =
     ([Remote_invoke customer_information_remote_graph
         [HumanMessage (task_formatted_prompt [step_customer, step_invoice]
            ''customer_information_subagent'' ''Look up the name of customer 1'')]],
      Inr (empty_update\<lparr>upd_past_steps := Some [(''customer_information_subagent executed logic to answer the following request from the planner/supervisor: Look up the name of customer 1'', ''The name is Luis'')]\<rparr>)) \<and>
   action_plan (apply_update state_planned (Some (empty_update\<lparr>upd_past_steps := Some [(''customer_information_subagent executed logic to answer the following request from the planner/supervisor: Look up the name of customer 1'', ''The name is Luis'')]\<rparr>))) =
     Some [step_customer, step_invoice]"
proof -
  have run: "agent_executor env_demo state_planned =
     ([Remote_invoke customer_information_remote_graph
         [HumanMessage (task_formatted_prompt [step_customer, step_invoice]
            ''customer_information_subagent'' ''Look up the name of customer 1'')]],
      Inr (empty_update\<lparr>upd_past_steps := Some [(''customer_information_subagent executed logic to answer the following request from the planner/supervisor: Look up the name of customer 1'', ''The name is Luis'')]\<rparr>))"
    by (simp add: agent_executor_def invoke_remote_graph_def read_final_response_def Let_def
        env_demo_def state_planned_def step_customer_def remote_answer_def)
  from executor_update_touches_only_past_steps[OF run]
  have "action_plan (apply_update state_planned (Some (empty_update\<lparr>upd_past_steps := Some [(''customer_information_subagent executed logic to answer the following request from the planner/supervisor: Look up the name of customer 1'', ''The name is Luis'')]\<rparr>))) =
     action_plan state_planned" by blast
  also have "\<dots> = Some [step_customer, step_invoice]" by (simp add: state_planned_def)
  finally show ?thesis using run by blast
qed

subsection \<open>The replanner\<close>

lemma replanner_InrD:
  assumes "replanner env state = (calls, Inr u)"
  shows "\<exists>obj plan result.
           original_objective state = Some obj \<and> action_plan state = Some plan \<and>
           invoke_ReplannerResponse env
             [SystemMessage (replanner_prompt obj (format_action_plan plan)
                               (format_steps (past_steps state)))] = Inr result \<and>
           u = (case action result of
                  Response text \<Rightarrow> empty_update\<lparr>upd_response := Some text\<rparr>
                | Plan_action p \<Rightarrow> empty_update\<lparr>upd_action_plan := Some (steps p)\<rparr>)"
proof -
  from assms obtain obj where ob: "original_objective state = Some obj"
    by (cases "original_objective state") (simp_all add: replanner_def)
  from assms ob obtain plan where p: "action_plan state = Some plan"
    by (cases "action_plan state") (simp_all add: replanner_def)
  from assms ob p show ?thesis
    by (auto simp: replanner_def Let_def split: sum.splits)
qed

lemma replanner_returns:
  assumes "original_objective state = Some obj" and "action_plan state = Some plan"
    and "invoke_ReplannerResponse env
           [SystemMessage (replanner_prompt obj (format_action_plan plan)
                             (format_steps (past_steps state)))] = Inr result"
  shows "snd (replanner env state) =
           Inr (case action result of
                  Response text \<Rightarrow> empty_update\<lparr>upd_response := Some text\<rparr>
                | Plan_action p \<Rightarrow> empty_update\<lparr>upd_action_plan := Some (steps p)\<rparr>)"
  using assms by (simp add: replanner_def Let_def)

lemma apply_update_response_only:
  "apply_update state (Some (empty_update\<lparr>upd_response := Some text\<rparr>)) =
     state\<lparr>response := Some text\<rparr>"
  by (simp add: apply_update_def empty_update_def)

lemma apply_update_action_plan_only:
  "apply_update state (Some (empty_update\<lparr>upd_action_plan := Some p\<rparr>)) =
     state\<lparr>action_plan := Some p\<rparr>"
  by (simp add: apply_update_def empty_update_def)

text \<open>
  C2. A replanner invocation completes exactly when both keys it reads are present and the
  model answers. Its update then holds exactly one of the keys \<^verbatim>\<open>response\<close> and \<^verbatim>\<open>action_plan\<close>
  and no other key: when the model's action is a Response, \<^verbatim>\<open>response\<close> becomes its text and
  \<^verbatim>\<open>action_plan\<close> stays as it was; when it is a Plan, \<^verbatim>\<open>action_plan\<close> becomes its steps and
  \<^verbatim>\<open>response\<close> is not written.
\<close>

theorem replanner_exactly_one_outcome:
  "(\<forall>obj plan result.
      original_objective state = Some obj \<and> action_plan state = Some plan \<and>
      invoke_ReplannerResponse env
        [SystemMessage (replanner_prompt obj (format_action_plan plan)
                          (format_steps (past_steps state)))] = Inr result \<longrightarrow>
      (\<exists>u. snd (replanner env state) = Inr u)) \<and>
   (\<forall>calls u. replanner env state = (calls, Inr u) \<longrightarrow>
      ((upd_response u = None) \<noteq> (upd_action_plan u = None)) \<and>
      upd_original_objective u = None \<and> upd_past_steps u = None \<and>
      (\<exists>obj plan result.
         original_objective state = Some obj \<and> action_plan state = Some plan \<and>
         invoke_ReplannerResponse env
           [SystemMessage (replanner_prompt obj (format_action_plan plan)
                             (format_steps (past_steps state)))] = Inr result \<and>
         (case action result of
            Response text \<Rightarrow>
              upd_response u = Some text \<and> upd_action_plan u = None \<and>
              apply_update state (Some u) = state\<lparr>response := Some text\<rparr>
          | Plan_action p \<Rightarrow>
              upd_action_plan u = Some (steps p) \<and> upd_response u = None \<and>
              apply_update state (Some u) = state\<lparr>action_plan := Some (steps p)\<rparr>)))"
proof (intro conjI allI impI)
  fix obj plan result
  assume "original_objective state = Some obj \<and> action_plan state = Some plan \<and>
      invoke_ReplannerResponse env
        [SystemMessage (replanner_prompt obj (format_action_plan plan)
                          (format_steps (past_steps state)))] = Inr result"
  then show "\<exists>u. snd (replanner env state) = Inr u"
    using replanner_returns[of state obj plan env result] by blast
next
  fix calls u
  assume r: "replanner env state = (calls, Inr u)"
  from replanner_InrD[OF r] obtain obj plan result where
    ob: "original_objective state = Some obj" and p: "action_plan state = Some plan"
    and inv: "invoke_ReplannerResponse env
           [SystemMessage (replanner_prompt obj (format_action_plan plan)
                             (format_steps (past_steps state)))] = Inr result"
    and u: "u = (case action result of
                  Response text \<Rightarrow> empty_update\<lparr>upd_response := Some text\<rparr>
                | Plan_action p \<Rightarrow> empty_update\<lparr>upd_action_plan := Some (steps p)\<rparr>)"
    by blast
  show "(upd_response u = None) \<noteq> (upd_action_plan u = None)"
    unfolding u by (cases "action result") (simp_all add: empty_update_def)
  show "upd_original_objective u = None"
    unfolding u by (cases "action result") (simp_all add: empty_update_def)
  show "upd_past_steps u = None"
    unfolding u by (cases "action result") (simp_all add: empty_update_def)
  have "(case action result of
            Response text \<Rightarrow>
              upd_response u = Some text \<and> upd_action_plan u = None \<and>
              apply_update state (Some u) = state\<lparr>response := Some text\<rparr>
          | Plan_action p \<Rightarrow>
              upd_action_plan u = Some (steps p) \<and> upd_response u = None \<and>
              apply_update state (Some u) = state\<lparr>action_plan := Some (steps p)\<rparr>)"
  proof (cases "action result")
    case (Response answer)
    then have "u = empty_update\<lparr>upd_response := Some answer\<rparr>" using u by simp
    with Response show ?thesis
      by (simp add: apply_update_response_only) (simp add: empty_update_def)
  next
    case (Plan_action q)
    then have "u = empty_update\<lparr>upd_action_plan := Some (steps q)\<rparr>" using u by simp
    with Plan_action show ?thesis
      by (simp add: apply_update_action_plan_only) (simp add: empty_update_def)
  qed
  with ob p inv
  show "\<exists>obj plan result.
         original_objective state = Some obj \<and> action_plan state = Some plan \<and>
         invoke_ReplannerResponse env
           [SystemMessage (replanner_prompt obj (format_action_plan plan)
                             (format_steps (past_steps state)))] = Inr result \<and>
         (case action result of
            Response text \<Rightarrow>
              upd_response u = Some text \<and> upd_action_plan u = None \<and>
              apply_update state (Some u) = state\<lparr>response := Some text\<rparr>
          | Plan_action p \<Rightarrow>
              upd_action_plan u = Some (steps p) \<and> upd_response u = None \<and>
              apply_update state (Some u) = state\<lparr>action_plan := Some (steps p)\<rparr>)"
    by blast
qed

theorem replanner_exactly_one_outcome_witness:
  "snd (replanner env_demo state_planned) =
     Inr (empty_update\<lparr>upd_response := Some ''Your name is Luis.''\<rparr>) \<and>
   snd (replanner env_continue state_planned) =
     Inr (empty_update\<lparr>upd_action_plan := Some [step_invoice]\<rparr>) \<and>
   (\<exists>u. snd (replanner env_continue state_planned) = Inr u) \<and>
   (upd_response (empty_update\<lparr>upd_action_plan := Some [step_invoice]\<rparr>) = None) \<noteq>
   (upd_action_plan (empty_update\<lparr>upd_action_plan := Some [step_invoice]\<rparr>) = None)"
proof -
  have a: "snd (replanner env_demo state_planned) =
     Inr (empty_update\<lparr>upd_response := Some ''Your name is Luis.''\<rparr>)"
    by (simp add: replanner_def Let_def env_demo_def state_planned_def)
  have b: "snd (replanner env_continue state_planned) =
     Inr (empty_update\<lparr>upd_action_plan := Some [step_invoice]\<rparr>)"
    by (simp add: replanner_def Let_def env_continue_def env_demo_def state_planned_def)
  have keys: "original_objective state_planned = Some ''my customer ID is 1. what is my name?'' \<and>
      action_plan state_planned = Some [step_customer, step_invoice] \<and>
      invoke_ReplannerResponse env_continue
        [SystemMessage (replanner_prompt ''my customer ID is 1. what is my name?''
           (format_action_plan [step_customer, step_invoice])
           (format_steps (past_steps state_planned)))] =
        Inr \<lparr>action = Plan_action \<lparr>steps = [step_invoice]\<rparr>\<rparr>"
    by (simp add: env_continue_def env_demo_def state_planned_def)
  note inst = replanner_exactly_one_outcome[of state_planned env_continue]
  from inst keys have c: "\<exists>u. snd (replanner env_continue state_planned) = Inr u" by blast
  from b have "replanner env_continue state_planned =
      (fst (replanner env_continue state_planned),
       Inr (empty_update\<lparr>upd_action_plan := Some [step_invoice]\<rparr>))"
    by (metis prod.collapse)
  from inst[THEN conjunct2, rule_format, OF this, THEN conjunct1]
  have "(upd_response (empty_update\<lparr>upd_action_plan := Some [step_invoice]\<rparr>) = None) \<noteq>
   (upd_action_plan (empty_update\<lparr>upd_action_plan := Some [step_invoice]\<rparr>) = None)" .
  with a b c show ?thesis by blast
qed

subsection \<open>The human review\<close>

lemma human_input_empty:
  assumes "action_plan state = Some plan" and "original_objective state = Some obj"
  shows "human_input env state [] = ([Interrupt plan], Inr None)"
  using assms by (simp add: human_input_def)

lemma human_input_feedback:
  assumes "action_plan state = Some plan" and "original_objective state = Some obj"
    and "user_input \<noteq> []"
    and "invoke_PlanWithUserInput env
           [SystemMessage (replan_with_user_input_prompt obj (format_action_plan plan) user_input)] =
         Inr result"
  shows "human_input env state user_input =
           ([Interrupt plan,
             Model_invoke PlanWithUserInput_schema
               [SystemMessage
                  (replan_with_user_input_prompt obj (format_action_plan plan) user_input)]],
            Inr (Some (empty_update\<lparr>upd_action_plan := Some (steps result),
                         upd_original_objective := Some (updated_objective result)\<rparr>)))"
  using assms by (simp add: human_input_def Let_def)

lemma apply_update_plan_and_objective:
  "apply_update state
     (Some (empty_update\<lparr>upd_action_plan := Some p, upd_original_objective := Some ob\<rparr>)) =
   state\<lparr>action_plan := Some p, original_objective := Some ob\<rparr>"
  by (simp add: apply_update_def empty_update_def)

text \<open>
  C5. On a state that holds a plan and an objective: resumed with the empty string, the human
  review returns no update and the whole state, \<^verbatim>\<open>action_plan\<close> and \<^verbatim>\<open>original_objective\<close>
  included, is what it was; resumed with a non-empty string to which the model answers, its
  update holds the model's steps and the model's updated objective, and after the merge
  \<^verbatim>\<open>action_plan\<close> is exactly those steps and \<^verbatim>\<open>original_objective\<close> exactly that objective,
  whatever the old values were, every other key being unchanged.
\<close>

theorem human_input_keeps_or_replaces:
  assumes "action_plan state = Some plan" and "original_objective state = Some obj"
  shows "snd (human_input env state []) = Inr None \<and>
         apply_update state None = state \<and>
         (\<forall>user_input result.
            user_input \<noteq> [] \<and>
            invoke_PlanWithUserInput env
              [SystemMessage
                 (replan_with_user_input_prompt obj (format_action_plan plan) user_input)] =
              Inr result \<longrightarrow>
            snd (human_input env state user_input) =
              Inr (Some (empty_update\<lparr>upd_action_plan := Some (steps result),
                           upd_original_objective := Some (updated_objective result)\<rparr>)) \<and>
            apply_update state
              (Some (empty_update\<lparr>upd_action_plan := Some (steps result),
                       upd_original_objective := Some (updated_objective result)\<rparr>)) =
              state\<lparr>action_plan := Some (steps result),
                    original_objective := Some (updated_objective result)\<rparr>)"
proof (intro conjI allI impI)
  show "snd (human_input env state []) = Inr None"
    using human_input_empty[OF assms, of env] by simp
  show "apply_update state None = state" by (simp add: apply_update_def)
next
  fix user_input result
  assume h: "user_input \<noteq> [] \<and>
            invoke_PlanWithUserInput env
              [SystemMessage
                 (replan_with_user_input_prompt obj (format_action_plan plan) user_input)] =
              Inr result"
  then have ne: "user_input \<noteq> []" and inv: "invoke_PlanWithUserInput env
              [SystemMessage
                 (replan_with_user_input_prompt obj (format_action_plan plan) user_input)] =
              Inr result" by simp_all
  from human_input_feedback[OF assms ne inv]
  show "snd (human_input env state user_input) =
              Inr (Some (empty_update\<lparr>upd_action_plan := Some (steps result),
                           upd_original_objective := Some (updated_objective result)\<rparr>))"
    by simp
  show "apply_update state
              (Some (empty_update\<lparr>upd_action_plan := Some (steps result),
                       upd_original_objective := Some (updated_objective result)\<rparr>)) =
              state\<lparr>action_plan := Some (steps result),
                    original_objective := Some (updated_objective result)\<rparr>"
    by (rule apply_update_plan_and_objective)
qed

theorem human_input_keeps_or_replaces_witness:
  "action_plan state_planned = Some [step_customer, step_invoice] \<and>
   snd (human_input env_demo state_planned []) = Inr None \<and>
   snd (human_input env_demo state_planned ''also list the albums by U2'') =
     Inr (Some (empty_update\<lparr>upd_action_plan := Some [step_catalog],
                  upd_original_objective := Some ''Which albums by U2 are there?''\<rparr>)) \<and>
   action_plan (apply_update state_planned
     (Some (empty_update\<lparr>upd_action_plan := Some [step_catalog],
              upd_original_objective := Some ''Which albums by U2 are there?''\<rparr>))) =
     Some [step_catalog]"
proof -
  have a: "action_plan state_planned = Some [step_customer, step_invoice]"
    and b: "original_objective state_planned = Some ''my customer ID is 1. what is my name?''"
    by (simp_all add: state_planned_def)
  have c: "''also list the albums by U2'' \<noteq> [] \<and>
      invoke_PlanWithUserInput env_demo
        [SystemMessage
           (replan_with_user_input_prompt ''my customer ID is 1. what is my name?''
              (format_action_plan [step_customer, step_invoice]) ''also list the albums by U2'')] =
      Inr \<lparr>steps = [step_catalog], updated_objective = ''Which albums by U2 are there?''\<rparr>"
    by (simp add: env_demo_def)
  note inst = human_input_keeps_or_replaces[OF a b, of env_demo]
  from inst have e: "snd (human_input env_demo state_planned []) = Inr None" by (rule conjunct1)
  from inst[THEN conjunct2, THEN conjunct2, rule_format, OF c]
  have f: "snd (human_input env_demo state_planned ''also list the albums by U2'') =
     Inr (Some (empty_update\<lparr>upd_action_plan := Some [step_catalog],
                  upd_original_objective := Some ''Which albums by U2 are there?''\<rparr>))"
    and g: "apply_update state_planned
     (Some (empty_update\<lparr>upd_action_plan := Some [step_catalog],
              upd_original_objective := Some ''Which albums by U2 are there?''\<rparr>)) =
     state_planned\<lparr>action_plan := Some [step_catalog],
       original_objective := Some ''Which albums by U2 are there?''\<rparr>"
    by simp_all
  from g have "action_plan (apply_update state_planned
     (Some (empty_update\<lparr>upd_action_plan := Some [step_catalog],
              upd_original_objective := Some ''Which albums by U2 are there?''\<rparr>))) =
     Some [step_catalog]" by simp
  with a e f show ?thesis by blast
qed

subsection \<open>The supervisor\<close>

lemma slice_last_rev_take: "slice_last n xs = rev (take n (rev xs))"
  by (simp add: slice_last_def take_rev)

lemma length_slice_last: "length (slice_last n xs) \<le> n"
  by (simp add: slice_last_def)

lemma length_filtered_messages: "length (filtered_messages msgs) \<le> 3"
proof -
  have "length (filtered_messages msgs) \<le> length (slice_last 3 msgs)"
    unfolding filtered_messages_def by (rule length_filter_le)
  also have "\<dots> \<le> 3" by (rule length_slice_last)
  finally show ?thesis .
qed

lemma supervisor_returns:
  assumes "messages state \<noteq> []"
    and "invoke_Plan env (SystemMessage supervisor_prompt # filtered_messages (messages state)) =
         Inr result"
  shows "supervisor env state =
           ([Model_invoke Plan_schema
               (SystemMessage supervisor_prompt # filtered_messages (messages state))],
            Inr (empty_update\<lparr>upd_action_plan := Some (steps result),
                   upd_original_objective := Some (content (last (messages state)))\<rparr>))"
  using assms by (simp add: supervisor_def Let_def)

text \<open>
  C9. When the conversation is not empty and the model answers with a plan, the supervisor's
  update, and the state after the merge, hold that plan's steps as \<^verbatim>\<open>action_plan\<close> and the
  content of the last message of the conversation, unchanged, as \<^verbatim>\<open>original_objective\<close>. The
  one call of the model is given the system prompt followed by the context: the three most
  recent messages (all of them when there are fewer), in their order, without those whose type
  is \<^verbatim>\<open>tool\<close> or \<^verbatim>\<open>tool_call\<close>; so at most three messages, none of such a type.
\<close>

theorem supervisor_plan_objective_and_context:
  "(\<forall>result.
      messages state \<noteq> [] \<and>
      invoke_Plan env (SystemMessage supervisor_prompt # filtered_messages (messages state)) =
        Inr result \<longrightarrow>
      supervisor env state =
        ([Model_invoke Plan_schema
            (SystemMessage supervisor_prompt # filtered_messages (messages state))],
         Inr (empty_update\<lparr>upd_action_plan := Some (steps result),
                upd_original_objective := Some (content (last (messages state)))\<rparr>)) \<and>
      apply_update state
        (Some (empty_update\<lparr>upd_action_plan := Some (steps result),
                 upd_original_objective := Some (content (last (messages state)))\<rparr>)) =
        state\<lparr>action_plan := Some (steps result),
              original_objective := Some (content (last (messages state)))\<rparr>) \<and>
   filtered_messages (messages state) =
     filter (\<lambda>m. msg_type m \<noteq> ''tool'' \<and> msg_type m \<noteq> ''tool_call'')
       (rev (take 3 (rev (messages state)))) \<and>
   length (filtered_messages (messages state)) \<le> 3 \<and>
   (\<forall>m \<in> set (filtered_messages (messages state)).
      m \<in> set (messages state) \<and> msg_type m \<noteq> ''tool'' \<and> msg_type m \<noteq> ''tool_call'')"
proof (intro conjI allI impI ballI)
  fix result
  assume h: "messages state \<noteq> [] \<and>
      invoke_Plan env (SystemMessage supervisor_prompt # filtered_messages (messages state)) =
        Inr result"
  then show "supervisor env state =
        ([Model_invoke Plan_schema
            (SystemMessage supervisor_prompt # filtered_messages (messages state))],
         Inr (empty_update\<lparr>upd_action_plan := Some (steps result),
                upd_original_objective := Some (content (last (messages state)))\<rparr>))"
    using supervisor_returns[of state env result] by blast
  show "apply_update state
        (Some (empty_update\<lparr>upd_action_plan := Some (steps result),
                 upd_original_objective := Some (content (last (messages state)))\<rparr>)) =
        state\<lparr>action_plan := Some (steps result),
              original_objective := Some (content (last (messages state)))\<rparr>"
    by (rule apply_update_plan_and_objective)
next
  show eq: "filtered_messages (messages state) =
     filter (\<lambda>m. msg_type m \<noteq> ''tool'' \<and> msg_type m \<noteq> ''tool_call'')
       (rev (take 3 (rev (messages state))))"
    by (simp add: filtered_messages_def slice_last_rev_take)
  show "length (filtered_messages (messages state)) \<le> 3" by (rule length_filtered_messages)
  fix m
  assume m: "m \<in> set (filtered_messages (messages state))"
  then have "m \<in> set (rev (take 3 (rev (messages state))))"
    and ty: "msg_type m \<noteq> ''tool'' \<and> msg_type m \<noteq> ''tool_call''"
    unfolding eq by simp_all
  then have "m \<in> set (take 3 (rev (messages state)))" by simp
  then have "m \<in> set (rev (messages state))" by (rule in_set_takeD)
  then show "m \<in> set (messages state)" by simp
  from ty show "msg_type m \<noteq> ''tool''" "msg_type m \<noteq> ''tool_call''" by simp_all
qed

theorem supervisor_plan_objective_and_context_witness:
  "messages (initial_state msgs_with_tool) \<noteq> [] \<and>
   supervisor env_demo (initial_state msgs_with_tool) =
     ([Model_invoke Plan_schema
         [SystemMessage supervisor_prompt,
          \<lparr>msg_type = ''ai'', content = ''looking it up''\<rparr>,
          HumanMessage ''what albums by U2 are there?'']],
      Inr (empty_update\<lparr>upd_action_plan := Some [step_customer, step_invoice],
             upd_original_objective := Some ''what albums by U2 are there?''\<rparr>)) \<and>
   length (filtered_messages (messages (initial_state msgs_with_tool))) \<le> 3"
proof -
  have ctx: "filtered_messages (messages (initial_state msgs_with_tool)) =
      [\<lparr>msg_type = ''ai'', content = ''looking it up''\<rparr>,
       HumanMessage ''what albums by U2 are there?'']"
    by (simp add: filtered_messages_def slice_last_def initial_state_def msgs_with_tool_def
        HumanMessage_def)
  have h: "messages (initial_state msgs_with_tool) \<noteq> [] \<and>
      invoke_Plan env_demo
        (SystemMessage supervisor_prompt #
         filtered_messages (messages (initial_state msgs_with_tool))) =
      Inr \<lparr>steps = [step_customer, step_invoice]\<rparr>"
    by (simp add: initial_state_def msgs_with_tool_def env_demo_def)
  have lst: "content (last (messages (initial_state msgs_with_tool))) =
      ''what albums by U2 are there?''"
    by (simp add: initial_state_def msgs_with_tool_def HumanMessage_def)
  note inst = supervisor_plan_objective_and_context[of "initial_state msgs_with_tool" env_demo]
  from inst[THEN conjunct1, rule_format, OF h, THEN conjunct1]
  have "supervisor env_demo (initial_state msgs_with_tool) =
     ([Model_invoke Plan_schema
         [SystemMessage supervisor_prompt,
          \<lparr>msg_type = ''ai'', content = ''looking it up''\<rparr>,
          HumanMessage ''what albums by U2 are there?'']],
      Inr (empty_update\<lparr>upd_action_plan := Some [step_customer, step_invoice],
             upd_original_objective := Some ''what albums by U2 are there?''\<rparr>))"
    unfolding ctx lst by simp
  moreover from inst have "length (filtered_messages (messages (initial_state msgs_with_tool))) \<le> 3"
    by blast
  ultimately show ?thesis using h by blast
qed

subsection \<open>The execution history\<close>

lemma appended_records_simps:
  "appended_records (n, None) = []"
  "appended_records (n, Some u) = (case upd_past_steps u of None \<Rightarrow> [] | Some l \<Rightarrow> l)"
  by (simp_all add: appended_records_def)

lemma apply_update_past_steps:
  "past_steps (apply_update st u) = past_steps st @ appended_records (n, u)"
  by (cases u) (simp_all add: apply_update_def appended_records_def split: option.splits)

lemma supervisor_no_record:
  "snd (supervisor env st) = Inr u \<Longrightarrow> upd_past_steps u = None"
  by (auto simp: supervisor_def Let_def empty_update_def split: if_splits sum.splits)

lemma human_input_no_record:
  "snd (human_input env st fb) = Inr u \<Longrightarrow> appended_records (n, u) = []"
  by (auto simp: human_input_def Let_def empty_update_def appended_records_def
      split: if_splits sum.splits option.splits)

lemma replanner_no_record:
  "snd (replanner env st) = Inr u \<Longrightarrow> upd_past_steps u = None"
  by (auto simp: replanner_def Let_def empty_update_def
      split: option.splits sum.splits Response_or_Plan.splits)

lemma agent_executor_one_record:
  "snd (agent_executor env st) = Inr u \<Longrightarrow> \<exists>r. upd_past_steps u = Some [r]"
proof -
  assume "snd (agent_executor env st) = Inr u"
  then have "agent_executor env st = (fst (agent_executor env st), Inr u)" by (metis prod.collapse)
  from agent_executor_InrD[OF this] show ?thesis by (auto simp: empty_update_def)
qed

lemma run_node_records:
  assumes "snd (run_node env r n st) = Inr u"
  shows "length (appended_records (n, u)) = (if n = agent_executor_node then 1 else 0)"
proof (cases n)
  case START
  with assms show ?thesis by (auto simp: run_node_def appended_records_def)
next
  case supervisor_node
  with assms obtain v where "snd (supervisor env st) = Inr v" "u = Some v"
    by (cases "supervisor env st"; cases "snd (supervisor env st)") (auto simp: run_node_def)
  with supervisor_node supervisor_no_record[of env st v] show ?thesis
    by (simp add: appended_records_def)
next
  case human_input_node
  with assms have "snd (human_input env st r) = Inr u" by (simp add: run_node_def)
  from human_input_no_record[OF this] human_input_node show ?thesis by simp
next
  case agent_executor_node
  with assms obtain v where "snd (agent_executor env st) = Inr v" "u = Some v"
    by (cases "agent_executor env st"; cases "snd (agent_executor env st)") (auto simp: run_node_def)
  with agent_executor_node agent_executor_one_record[of env st v] show ?thesis
    by (auto simp: appended_records_def)
next
  case replanner_node
  with assms obtain v where "snd (replanner env st) = Inr v" "u = Some v"
    by (cases "replanner env st"; cases "snd (replanner env st)") (auto simp: run_node_def)
  with replanner_node replanner_no_record[of env st v] show ?thesis
    by (simp add: appended_records_def)
next
  case END
  with assms show ?thesis by (auto simp: run_node_def appended_records_def)
qed

lemma superstep_past_steps:
  assumes "superstep env r (n, st) = Inr (Some (ev, (n', st')))"
  shows "fst ev = n \<and> past_steps st' = past_steps st @ appended_records ev \<and>
         length (appended_records ev) = (if n = agent_executor_node then 1 else 0)"
proof -
  from superstep_SomeD[OF assms] obtain u where
    u: "snd (run_node env r n st) = Inr u" and ev: "ev = (n, u)" and st': "st' = apply_update st u"
    by blast
  from run_node_records[OF u] ev st' show ?thesis
    by (simp add: apply_update_past_steps[of st u n])
qed

lemma run_past_steps:
  "run envs r k (n0, st0) = Inr (evs, (n, st)) \<Longrightarrow>
     past_steps st = past_steps st0 @ concat (map appended_records (executor_events evs)) \<and>
     (\<forall>ev \<in> set (executor_events evs). length (appended_records ev) = 1)"
proof (induction k arbitrary: envs n0 st0 evs)
  case 0
  then show ?case by (simp add: executor_events_def)
next
  case (Suc k)
  from run_SucD[OF Suc.prems] show ?case
  proof (elim disjE conjE exE)
    assume "evs = []" "(n, st) = (n0, st0)"
    then show ?thesis by (simp add: executor_events_def)
  next
    fix ev c1 evs1
    assume ss: "superstep (envs 0) r (n0, st0) = Inr (Some (ev, c1))"
      and rest: "run (\<lambda>i. envs (Suc i)) r k c1 = Inr (evs1, (n, st))"
      and evs: "evs = ev # evs1"
    obtain n1 st1 where c1: "c1 = (n1, st1)" by (cases c1)
    from superstep_past_steps[OF ss[unfolded c1]]
    have ev: "fst ev = n0" and ps: "past_steps st1 = past_steps st0 @ appended_records ev"
      and len: "length (appended_records ev) = (if n0 = agent_executor_node then 1 else 0)"
      by simp_all
    from Suc.IH[OF rest[unfolded c1]]
    have ih: "past_steps st = past_steps st1 @ concat (map appended_records (executor_events evs1))"
      "\<forall>ev \<in> set (executor_events evs1). length (appended_records ev) = 1" by simp_all
    show ?thesis
    proof (cases "n0 = agent_executor_node")
      case True
      with ev evs have "executor_events evs = ev # executor_events evs1"
        by (simp add: executor_events_def)
      with ih ps len True show ?thesis by simp
    next
      case False
      with ev evs have "executor_events evs = executor_events evs1"
        by (simp add: executor_events_def)
      moreover from len False have "appended_records ev = []" by simp
      ultimately show ?thesis using ih ps by simp
    qed
  qed
qed

lemma length_concat_singletons:
  "\<forall>x \<in> set xs. length (f x) = 1 \<Longrightarrow> length (concat (map f xs)) = length xs"
  by (induction xs) simp_all

text \<open>
  C6. In every run of the graph, from any configuration, the final \<^verbatim>\<open>past_steps\<close> is the
  initial one followed by the records of the completed executor invocations, in the order of
  the invocations, each invocation having appended exactly one record: what was there is
  kept in place, and the length grows by the number of completed invocations. In a session,
  which starts from the input's messages with an empty history, the length of \<^verbatim>\<open>past_steps\<close> is
  exactly that number.
\<close>

theorem past_steps_one_record_per_executor_call:
  "(\<forall>n0 st0 evs n st.
      run envs resume k (n0, st0) = Inr (evs, (n, st)) \<longrightarrow>
      past_steps st = past_steps st0 @ concat (map appended_records (executor_events evs)) \<and>
      (\<forall>ev \<in> set (executor_events evs). length (appended_records ev) = 1) \<and>
      length (past_steps st) = length (past_steps st0) + length (executor_events evs)) \<and>
   (\<forall>msgs evs n st.
      run envs resume k (START, initial_state msgs) = Inr (evs, (n, st)) \<longrightarrow>
      past_steps st = concat (map appended_records (executor_events evs)) \<and>
      length (past_steps st) = length (executor_events evs))"
proof -
  have gen: "past_steps st = past_steps st0 @ concat (map appended_records (executor_events evs)) \<and>
      (\<forall>ev \<in> set (executor_events evs). length (appended_records ev) = 1) \<and>
      length (past_steps st) = length (past_steps st0) + length (executor_events evs)"
    if "run envs resume k (n0, st0) = Inr (evs, (n, st))" for n0 st0 evs n st
  proof -
    from run_past_steps[OF that]
    have a: "past_steps st = past_steps st0 @ concat (map appended_records (executor_events evs))"
      and b: "\<forall>ev \<in> set (executor_events evs). length (appended_records ev) = 1" by simp_all
    from a length_concat_singletons[OF b] show ?thesis using b by simp
  qed
  have ses: "past_steps st = concat (map appended_records (executor_events evs)) \<and>
      length (past_steps st) = length (executor_events evs)"
    if "run envs resume k (START, initial_state msgs) = Inr (evs, (n, st))" for msgs evs n st
  proof -
    from gen[OF that]
    have a: "past_steps st =
        past_steps (initial_state msgs) @ concat (map appended_records (executor_events evs))"
      and c: "length (past_steps st) =
        length (past_steps (initial_state msgs)) + length (executor_events evs)"
      by blast+
    have e: "past_steps (initial_state msgs) = []" by (simp add: initial_state_def)
    from a c show ?thesis unfolding e by simp
  qed
  from gen ses show ?thesis by blast
qed

theorem past_steps_one_record_per_executor_call_witness:
  "map fst (fst (projr (run (\<lambda>_. env_continue) [] 7 (START, initial_state msgs_demo)))) =
     [START, supervisor_node, human_input_node, agent_executor_node, replanner_node,
      agent_executor_node, replanner_node] \<and>
   length (executor_events (fst (projr (run (\<lambda>_. env_continue) [] 7 (START, initial_state msgs_demo))))) = 2 \<and>
   past_steps (snd (snd (projr (run (\<lambda>_. env_continue) [] 7 (START, initial_state msgs_demo))))) =
     [(''customer_information_subagent executed logic to answer the following request from the planner/supervisor: Look up the name of customer 1'', ''The name is Luis''),
      (''invoice_information_subagent executed logic to answer the following request from the planner/supervisor: Find the most recent purchase of customer 1'', ''The name is Luis'')] \<and>
   length (past_steps (snd (snd (projr (run (\<lambda>_. env_continue) [] 7 (START, initial_state msgs_demo)))))) =
     length (executor_events (fst (projr (run (\<lambda>_. env_continue) [] 7 (START, initial_state msgs_demo)))))"
proof -
  let ?run = "run (\<lambda>_. env_continue) [] 7 (START, initial_state msgs_demo)"
  have "\<exists>x. ?run = Inr x"
    by (simp add: node_defs graph_defs example_defs eval_nat_numeral Let_def)
  then obtain x where x: "?run = Inr x" ..
  obtain evs n st where xe: "x = (evs, (n, st))" by (cases x) auto
  have nodes: "map fst (fst (projr ?run)) =
     [START, supervisor_node, human_input_node, agent_executor_node, replanner_node,
      agent_executor_node, replanner_node]"
    by (simp add: node_defs graph_defs example_defs eval_nat_numeral Let_def)
  have ps: "past_steps (snd (snd (projr ?run))) =
     [(''customer_information_subagent executed logic to answer the following request from the planner/supervisor: Look up the name of customer 1'', ''The name is Luis''),
      (''invoice_information_subagent executed logic to answer the following request from the planner/supervisor: Find the most recent purchase of customer 1'', ''The name is Luis'')]"
    by (simp add: node_defs graph_defs example_defs eval_nat_numeral Let_def)
  from x xe have r: "?run = Inr (evs, (n, st))" by simp
  from past_steps_one_record_per_executor_call[of "\<lambda>_. env_continue" "[]" 7,
      THEN conjunct2, rule_format, OF r]
  have "length (past_steps st) = length (executor_events evs)" by (rule conjunct2)
  with r have eq: "length (past_steps (snd (snd (projr ?run)))) =
      length (executor_events (fst (projr ?run)))" by simp
  with ps have "length (executor_events (fst (projr ?run))) = 2" by simp
  with eq nodes ps show ?thesis by (intro conjI)
qed

subsection \<open>The plan at the entry of the executor\<close>

lemma supervisor_InrD:
  assumes "snd (supervisor env st) = Inr u"
  shows "\<exists>sent result. invoke_Plan env sent = Inr result \<and>
           u = empty_update\<lparr>upd_action_plan := Some (steps result),
                 upd_original_objective := Some (content (last (messages st)))\<rparr>"
  using assms by (auto simp: supervisor_def Let_def split: if_splits sum.splits)

lemma human_input_InrD:
  assumes "snd (human_input env st fb) = Inr u"
  shows "u = None \<or>
         (\<exists>sent result. invoke_PlanWithUserInput env sent = Inr result \<and>
            u = Some (empty_update\<lparr>upd_action_plan := Some (steps result),
                        upd_original_objective := Some (updated_objective result)\<rparr>))"
  using assms
  by (auto simp: human_input_def Let_def split: option.splits if_splits sum.splits)

lemma plan_ready_replaced:
  "p \<noteq> [] \<Longrightarrow> plan_ready (st\<lparr>action_plan := Some p, original_objective := Some ob\<rparr>)"
  by (simp add: plan_ready_def)

lemma run_node_plan_ready:
  assumes plan: "\<And>sent result. invoke_Plan env sent = Inr result \<Longrightarrow> steps result \<noteq> []"
    and revised: "\<And>sent result. invoke_PlanWithUserInput env sent = Inr result \<Longrightarrow> steps result \<noteq> []"
    and continued: "\<And>sent result p. invoke_ReplannerResponse env sent = Inr result \<Longrightarrow>
                      action result = Plan_action p \<Longrightarrow> steps p \<noteq> []"
    and u: "snd (run_node env r n st) = Inr u"
    and before: "n \<noteq> START \<Longrightarrow> n \<noteq> supervisor_node \<Longrightarrow> plan_ready st"
    and n: "n \<noteq> START"
  shows "plan_ready (apply_update st u)"
proof (cases n)
  case START
  with n show ?thesis by simp
next
  case supervisor_node
  with u obtain v where v: "snd (supervisor env st) = Inr v" and uv: "u = Some v"
    by (cases "supervisor env st"; cases "snd (supervisor env st)") (auto simp: run_node_def)
  from supervisor_InrD[OF v] obtain sent result where
    inv: "invoke_Plan env sent = Inr result"
    and ve: "v = empty_update\<lparr>upd_action_plan := Some (steps result),
                 upd_original_objective := Some (content (last (messages st)))\<rparr>" by blast
  show ?thesis unfolding uv ve apply_update_plan_and_objective
    by (rule plan_ready_replaced) (rule plan[OF inv])
next
  case human_input_node
  with u have h: "snd (human_input env st r) = Inr u" by (simp add: run_node_def)
  from before human_input_node have pr: "plan_ready st" by simp
  from human_input_InrD[OF h] show ?thesis
  proof
    assume "u = None"
    with pr show ?thesis by (simp add: apply_update_def)
  next
    assume "\<exists>sent result. invoke_PlanWithUserInput env sent = Inr result \<and>
            u = Some (empty_update\<lparr>upd_action_plan := Some (steps result),
                        upd_original_objective := Some (updated_objective result)\<rparr>)"
    then obtain sent result where inv: "invoke_PlanWithUserInput env sent = Inr result"
      and ue: "u = Some (empty_update\<lparr>upd_action_plan := Some (steps result),
                        upd_original_objective := Some (updated_objective result)\<rparr>)" by blast
    show ?thesis unfolding ue apply_update_plan_and_objective
      by (rule plan_ready_replaced) (rule revised[OF inv])
  qed
next
  case agent_executor_node
  with u obtain v where v: "snd (agent_executor env st) = Inr v" and uv: "u = Some v"
    by (cases "agent_executor env st"; cases "snd (agent_executor env st)") (auto simp: run_node_def)
  from v have "agent_executor env st = (fst (agent_executor env st), Inr v)"
    by (metis prod.collapse)
  from agent_executor_InrD[OF this] obtain rec where
    ve: "v = empty_update\<lparr>upd_past_steps := Some [rec]\<rparr>" by blast
  from before agent_executor_node have pr: "plan_ready st" by simp
  then show ?thesis unfolding uv ve apply_update_past_steps_only
    by (simp add: plan_ready_def)
next
  case replanner_node
  with u obtain v where v: "snd (replanner env st) = Inr v" and uv: "u = Some v"
    by (cases "replanner env st"; cases "snd (replanner env st)") (auto simp: run_node_def)
  from v have "replanner env st = (fst (replanner env st), Inr v)"
    by (metis prod.collapse)
  from replanner_InrD[OF this] obtain obj pl result where
    inv: "invoke_ReplannerResponse env
           [SystemMessage (replanner_prompt obj (format_action_plan pl)
                             (format_steps (past_steps st)))] = Inr result"
    and ve: "v = (case action result of
                  Response answer \<Rightarrow> empty_update\<lparr>upd_response := Some answer\<rparr>
                | Plan_action p \<Rightarrow> empty_update\<lparr>upd_action_plan := Some (steps p)\<rparr>)"
    by (elim exE conjE)
  from before replanner_node have pr: "plan_ready st" by simp
  show ?thesis
  proof (cases "action result")
    case (Response answer)
    with ve have "v = empty_update\<lparr>upd_response := Some answer\<rparr>" by simp
    with pr show ?thesis unfolding uv
      by (simp add: apply_update_response_only plan_ready_def)
  next
    case (Plan_action p)
    with ve have "v = empty_update\<lparr>upd_action_plan := Some (steps p)\<rparr>" by simp
    moreover from continued[OF inv Plan_action] have "steps p \<noteq> []" .
    ultimately show ?thesis using pr unfolding uv
      by (simp add: apply_update_action_plan_only plan_ready_def)
  qed
next
  case END
  from before END have pr: "plan_ready st" by simp
  from u END have "u = None" by (simp add: run_node_def)
  with pr show ?thesis by (simp add: apply_update_def)
qed

lemma run_plan_ready:
  "run envs r k (n0, st0) = Inr (evs, (n, st)) \<Longrightarrow>
   (\<And>i sent result. invoke_Plan (envs i) sent = Inr result \<Longrightarrow> steps result \<noteq> []) \<Longrightarrow>
   (\<And>i sent result. invoke_PlanWithUserInput (envs i) sent = Inr result \<Longrightarrow> steps result \<noteq> []) \<Longrightarrow>
   (\<And>i sent result p. invoke_ReplannerResponse (envs i) sent = Inr result \<Longrightarrow>
      action result = Plan_action p \<Longrightarrow> steps p \<noteq> []) \<Longrightarrow>
   (n0 \<noteq> START \<Longrightarrow> n0 \<noteq> supervisor_node \<Longrightarrow> plan_ready st0) \<Longrightarrow>
   n \<noteq> START \<Longrightarrow> n \<noteq> supervisor_node \<Longrightarrow> plan_ready st"
proof (induction k arbitrary: envs n0 st0 evs)
  case 0
  then show ?case by simp
next
  case (Suc k)
  note plan = Suc.prems(2) and revised = Suc.prems(3) and continued = Suc.prems(4)
  from run_SucD[OF Suc.prems(1)] show ?case
  proof (elim disjE conjE exE)
    assume "(n, st) = (n0, st0)"
    with Suc.prems(5-7) show ?thesis by simp
  next
    fix ev c1 evs1
    assume ss: "superstep (envs 0) r (n0, st0) = Inr (Some (ev, c1))"
      and rest: "run (\<lambda>i. envs (Suc i)) r k c1 = Inr (evs1, (n, st))"
    obtain n1 st1 where c1: "c1 = (n1, st1)" by (cases c1)
    from superstep_SomeD[OF ss[unfolded c1]] obtain u where
      u: "snd (run_node (envs 0) r n0 st0) = Inr u" and st1: "st1 = apply_update st0 u"
      and nx: "next_node n0 st1 = Some n1" by blast
    have ready: "plan_ready st1" if "n1 \<noteq> START" "n1 \<noteq> supervisor_node"
    proof -
      from nx that have "n0 \<noteq> START"
        by (auto simp: next_node_simps)
      from run_node_plan_ready[OF plan[of 0] revised[of 0] continued[of 0] u Suc.prems(5) this]
      show ?thesis unfolding st1 by simp
    qed
    show ?thesis
    proof (rule Suc.IH[OF rest[unfolded c1] _ _ _ ready Suc.prems(6,7)])
      show "steps result \<noteq> []" if "invoke_Plan (envs (Suc i)) sent = Inr result"
        for i sent result using plan[OF that] .
      show "steps result \<noteq> []" if "invoke_PlanWithUserInput (envs (Suc i)) sent = Inr result"
        for i sent result using revised[OF that] .
      show "steps p \<noteq> []" if "invoke_ReplannerResponse (envs (Suc i)) sent = Inr result"
        "action result = Plan_action p" for i sent result p using continued[OF that] .
    qed
  qed
qed

text \<open>
  C4 as stated fails: a model whose continuation plan is empty brings the session, after the
  first replanning, to the entry of the executor with \<^verbatim>\<open>response\<close> unset and an empty plan, and
  the executor's selection of position 0 raises \<open>IndexError\<close>.
\<close>

theorem executor_entry_empty_plan_counterexample:
  "map_sum id snd (run (\<lambda>_. env_empty_plan) [] 5 (START, initial_state msgs_demo)) =
     Inr (agent_executor_node, state_empty_plan) \<and>
   response state_empty_plan = None \<and>
   action_plan state_empty_plan = Some [] \<and>
   agent_executor env_empty_plan state_empty_plan = ([], Inl IndexError)"
  by (simp add: node_defs graph_defs example_defs HumanMessage_def eval_nat_numeral Let_def)

text \<open>
  C4, amended. Provided every plan the model returns to the supervisor, to the human review
  and, on continuation, to the replanner has at least one step, every state in which control is
  about to enter the executor holds \<^verbatim>\<open>original_objective\<close> and a non-empty \<^verbatim>\<open>action_plan\<close>, whatever
  the initial state and the resume payload were; the selection of the step at position 0 is
  then within range. The graph itself puts no bound on the length of a plan.
\<close>

theorem executor_entry_plan_nonempty:
  assumes "\<And>i sent result. invoke_Plan (envs i) sent = Inr result \<Longrightarrow> steps result \<noteq> []"
    and "\<And>i sent result. invoke_PlanWithUserInput (envs i) sent = Inr result \<Longrightarrow>
           steps result \<noteq> []"
    and "\<And>i sent result p. invoke_ReplannerResponse (envs i) sent = Inr result \<Longrightarrow>
           action result = Plan_action p \<Longrightarrow> steps p \<noteq> []"
    and "run envs resume k (START, st0) = Inr (evs, (agent_executor_node, st))"
  shows "\<exists>plan obj. action_plan st = Some plan \<and> 0 < length plan \<and>
           original_objective st = Some obj"
proof -
  from run_plan_ready[OF assms(4) assms(1-3)]
  have "plan_ready st" by simp
  then show ?thesis
    by (auto simp: plan_ready_def split: option.splits)
qed

theorem executor_entry_plan_nonempty_witness:
  "fst (snd (projr (run (\<lambda>_. env_continue) [] 5 (START, initial_state msgs_demo)))) =
     agent_executor_node \<and>
   (\<exists>plan obj.
      action_plan (snd (snd (projr (run (\<lambda>_. env_continue) [] 5 (START, initial_state msgs_demo))))) =
        Some plan \<and> 0 < length plan \<and>
      original_objective (snd (snd (projr (run (\<lambda>_. env_continue) [] 5 (START, initial_state msgs_demo))))) =
        Some obj)"
proof -
  let ?run = "run (\<lambda>_. env_continue) [] 5 (START, initial_state msgs_demo)"
  have "\<exists>x. ?run = Inr x"
    by (simp add: node_defs graph_defs example_defs eval_nat_numeral Let_def)
  then obtain x where x: "?run = Inr x" ..
  obtain evs n st where xe: "x = (evs, (n, st))" by (cases x) auto
  have nd: "fst (snd (projr ?run)) = agent_executor_node"
    by (simp add: node_defs graph_defs example_defs eval_nat_numeral Let_def)
  with x xe have r: "?run = Inr (evs, (agent_executor_node, st))" by simp
  have a: "\<And>i sent result. invoke_Plan ((\<lambda>_. env_continue) i) sent = Inr result \<Longrightarrow>
              steps result \<noteq> []"
    and b: "\<And>i sent result. invoke_PlanWithUserInput ((\<lambda>_. env_continue) i) sent = Inr result \<Longrightarrow>
              steps result \<noteq> []"
    and c: "\<And>i sent result p. invoke_ReplannerResponse ((\<lambda>_. env_continue) i) sent = Inr result \<Longrightarrow>
              action result = Plan_action p \<Longrightarrow> steps p \<noteq> []"
    by (auto simp: env_continue_def env_demo_def)
  from executor_entry_plan_nonempty[OF a b c r]
  have "\<exists>plan obj. action_plan st = Some plan \<and> 0 < length plan \<and>
           original_objective st = Some obj" .
  with r nd show ?thesis by simp
qed

end
